theory Spec2Isabelle
  imports Main "HOL-Library.Multiset"
begin

section \<open>The Go string functions the analyser calls\<close>

text \<open>
  A Go string is a sequence of bytes; \<open>string\<close> (a list of 8-bit characters) is the same
  thing, and \<open>length\<close> is Go's \<open>len\<close>.
\<close>

definition HasPrefix :: "string \<Rightarrow> string \<Rightarrow> bool" where
  "HasPrefix s p = (take (length p) s = p)"

definition HasSuffix :: "string \<Rightarrow> string \<Rightarrow> bool" where
  "HasSuffix s p = (length p \<le> length s \<and> drop (length s - length p) s = p)"

definition TrimPrefix :: "string \<Rightarrow> string \<Rightarrow> string" where
  "TrimPrefix s p = (if HasPrefix s p then drop (length p) s else s)"

fun Contains :: "string \<Rightarrow> string \<Rightarrow> bool" where
  "Contains [] sub = (sub = [])"
| "Contains (c # cs) sub = (HasPrefix (c # cs) sub \<or> Contains cs sub)"

fun Join :: "string list \<Rightarrow> string \<Rightarrow> string" where
  "Join [] sep = []"
| "Join [x] sep = x"
| "Join (x # y # ys) sep = x @ sep @ Join (y # ys) sep"

text \<open>\<open>strings.Split(s, "\n")\<close>: the pieces between line feeds, one piece for the empty string.\<close>

fun SplitLines :: "string \<Rightarrow> string list" where
  "SplitLines [] = [[]]"
| "SplitLines (c # cs) =
     (if c = CHR 0x0A then [] # SplitLines cs
      else (case SplitLines cs of [] \<Rightarrow> [[c]] | l # ls \<Rightarrow> (c # l) # ls))"

text \<open>\<open>strings.ReplaceAll(s, "\r\n", "\n")\<close>, scanning from the left.\<close>

fun ReplaceAllCRLF :: "string \<Rightarrow> string" where
  "ReplaceAllCRLF (a # b # s) =
     (if a = CHR 0x0D \<and> b = CHR 0x0A then CHR 0x0A # ReplaceAllCRLF s
      else a # ReplaceAllCRLF (b # s))"
| "ReplaceAllCRLF s = s"

text \<open>\<open>strings.Trim(s, cutset)\<close> for a cutset of single-byte characters.\<close>

definition Trim :: "string \<Rightarrow> string \<Rightarrow> string" where
  "Trim s cutset =
     rev (dropWhile (\<lambda>c. c \<in> set cutset) (rev (dropWhile (\<lambda>c. c \<in> set cutset) s)))"

text \<open>
  \<open>strings.TrimSpace\<close> removes the code points of \<open>unicode.IsSpace\<close> from both ends, the left
  end first. In UTF-8 these are six single bytes, U+0085 and U+00A0 (two bytes), and
  U+1680, U+2000 to U+200A, U+2028, U+2029, U+202F, U+205F and U+3000 (three bytes).
\<close>

definition space1 :: "char \<Rightarrow> bool" where
  "space1 a = (a \<in> set [CHR 0x09, CHR 0x0A, CHR 0x0B, CHR 0x0C, CHR 0x0D, CHR 0x20])"

definition space2 :: "char \<Rightarrow> char \<Rightarrow> bool" where
  "space2 a b = (a = CHR 0xC2 \<and> (b = CHR 0x85 \<or> b = CHR 0xA0))"

definition space3 :: "char \<Rightarrow> char \<Rightarrow> char \<Rightarrow> bool" where
  "space3 a b c =
     ((a = CHR 0xE1 \<and> b = CHR 0x9A \<and> c = CHR 0x80) \<or>
      (a = CHR 0xE2 \<and> b = CHR 0x80 \<and>
         c \<in> set [CHR 0x80, CHR 0x81, CHR 0x82, CHR 0x83, CHR 0x84, CHR 0x85, CHR 0x86,
                  CHR 0x87, CHR 0x88, CHR 0x89, CHR 0x8A, CHR 0xA8, CHR 0xA9, CHR 0xAF]) \<or>
      (a = CHR 0xE2 \<and> b = CHR 0x81 \<and> c = CHR 0x9F) \<or>
      (a = CHR 0xE3 \<and> b = CHR 0x80 \<and> c = CHR 0x80))"

fun trimLeading ::
  "(char \<Rightarrow> bool) \<Rightarrow> (char \<Rightarrow> char \<Rightarrow> bool) \<Rightarrow> (char \<Rightarrow> char \<Rightarrow> char \<Rightarrow> bool) \<Rightarrow>
   string \<Rightarrow> string" where
  "trimLeading p1 p2 p3 (a # b # c # s) =
     (if p1 a then trimLeading p1 p2 p3 (b # c # s)
      else if p2 a b then trimLeading p1 p2 p3 (c # s)
      else if p3 a b c then trimLeading p1 p2 p3 s
      else a # b # c # s)"
| "trimLeading p1 p2 p3 [a, b] =
     (if p1 a then trimLeading p1 p2 p3 [b] else if p2 a b then [] else [a, b])"
| "trimLeading p1 p2 p3 [a] = (if p1 a then [] else [a])"
| "trimLeading p1 p2 p3 [] = []"

definition TrimSpace :: "string \<Rightarrow> string" where
  "TrimSpace s =
     rev (trimLeading space1 (\<lambda>a b. space2 b a) (\<lambda>a b c. space3 c b a)
       (rev (trimLeading space1 space2 space3 s)))"

section \<open>The syntax tree (go/ast) as far as the analyser reads it\<close>

text \<open>
  An \<open>ast.Expr\<close> is one of the node types the analyser's type switches name, or any other
  node. A constructor carries only the children that the analyser reads. A \<open>*ast.Field\<close>
  has its names, its type and its tag (\<open>None\<close> for a nil tag).
\<close>

datatype Expr =
    Ident string
  | StarExpr Expr
  | ArrayType Expr
  | MapType Expr Expr
  | SelectorExpr Expr string
  | InterfaceType
  | StructType "Field list"
  | ChanType
  | FuncTypeExpr
  | BasicLit string
  | OtherExpr
and Field = Field (Names: "string list") (Type: Expr) (Tag: "string option")

text \<open>A \<open>*ast.FieldList\<close> is \<open>None\<close> when the pointer is nil, and its \<open>List\<close> otherwise.\<close>

type_synonym FieldList = "Field list option"

record FuncType =
  ft_Params :: FieldList
  ft_Results :: FieldList

record FuncDecl =
  fd_Recv :: FieldList
  fd_Name :: string
  fd_Type :: "FuncType option"

record ValueSpec =
  vs_Names :: "string list"
  vs_Type :: "Expr option"
  vs_Values :: "Expr option list"

datatype Spec = ValueSpecNode ValueSpec | TypeSpecNode Expr | ImportSpecNode

record GenDecl =
  gd_Specs :: "Spec list"

section \<open>The documentation model\<close>

record ParamInfo =
  pa_Name :: string
  pa_Type :: string

record ReturnInfo =
  re_Type :: string
  re_Description :: string

record FieldInfo =
  fl_Name :: string
  fl_Type :: string
  fl_Tag :: string
  fl_Description :: string

record FunctionInfo =
  fn_Name :: string
  fn_Signature :: string
  fn_Description :: string
  fn_Parameters :: "ParamInfo list"
  fn_Returns :: "ReturnInfo list"
  fn_Examples :: "string list"
  fn_IsExported :: bool
  fn_IsMethod :: bool
  fn_Receiver :: string

record TypeInfo =
  ty_Name :: string
  ty_Kind :: string
  ty_Description :: string
  ty_Fields :: "FieldInfo list"
  ty_Methods :: "string list"
  ty_IsExported :: bool

record ConstantInfo =
  co_Name :: string
  co_Type :: string
  co_Value :: string
  co_Description :: string
  co_IsExported :: bool

record VariableInfo =
  va_Name :: string
  va_Type :: string
  va_Description :: string
  va_IsExported :: bool

record ExampleInfo =
  ex_Name :: string
  ex_Code :: string
  ex_Doc :: string

record PackageInfo =
  Name :: string
  Path :: string
  Description :: string
  Functions :: "FunctionInfo list"
  Types :: "TypeInfo list"
  Constants :: "ConstantInfo list"
  Variables :: "VariableInfo list"
  Examples :: "ExampleInfo list"
  Imports :: "string list"

section \<open>Type and expression text\<close>

fun typeToString :: "Expr \<Rightarrow> string" where
  "typeToString (Ident name) = name"
| "typeToString (StarExpr x) = ''*'' @ typeToString x"
| "typeToString (ArrayType elt) = ''[]'' @ typeToString elt"
| "typeToString (MapType k v) = ''map['' @ typeToString k @ '']'' @ typeToString v"
| "typeToString (SelectorExpr x sel) = typeToString x @ ''.'' @ sel"
| "typeToString InterfaceType = ''interface{}''"
| "typeToString _ = ''unknown''"

fun exprToString :: "Expr \<Rightarrow> string" where
  "exprToString (BasicLit v) = v"
| "exprToString (Ident name) = name"
| "exprToString _ = ''...''"

fun getTypeKind :: "Expr \<Rightarrow> string" where
  "getTypeKind (StructType _) = ''struct''"
| "getTypeKind InterfaceType = ''interface''"
| "getTypeKind (ArrayType _) = ''array''"
| "getTypeKind (MapType _ _) = ''map''"
| "getTypeKind ChanType = ''channel''"
| "getTypeKind FuncTypeExpr = ''function''"
| "getTypeKind _ = ''alias''"

section \<open>Field lists: parameters, returns, struct fields, signature\<close>

text \<open>The inner loop of \<open>fieldListToString\<close>: one \<open>name type\<close> part per name.\<close>

fun namedParts :: "string list \<Rightarrow> string \<Rightarrow> string list \<Rightarrow> string list" where
  "namedParts [] fieldType parts = parts"
| "namedParts (name # names) fieldType parts =
     namedParts names fieldType (parts @ [name @ '' '' @ fieldType])"

fun fieldParts :: "Field list \<Rightarrow> string list \<Rightarrow> string list" where
  "fieldParts [] parts = parts"
| "fieldParts (field # flds) parts =
     (let fieldType = typeToString (Type field) in
      if length (Names field) = 0 then fieldParts flds (parts @ [fieldType])
      else fieldParts flds (namedParts (Names field) fieldType parts))"

definition fieldListToString :: "FieldList \<Rightarrow> string" where
  "fieldListToString flds =
     (case flds of None \<Rightarrow> [] | Some l \<Rightarrow> Join (fieldParts l []) '', '')"

fun namedParams :: "string list \<Rightarrow> string \<Rightarrow> ParamInfo list \<Rightarrow> ParamInfo list" where
  "namedParams [] paramType params = params"
| "namedParams (name # names) paramType params =
     namedParams names paramType (params @ [\<lparr>pa_Name = name, pa_Type = paramType\<rparr>])"

fun paramFields :: "Field list \<Rightarrow> ParamInfo list \<Rightarrow> ParamInfo list" where
  "paramFields [] params = params"
| "paramFields (field # flds) params =
     (let paramType = typeToString (Type field) in
      if length (Names field) = 0
      then paramFields flds (params @ [\<lparr>pa_Name = [], pa_Type = paramType\<rparr>])
      else paramFields flds (namedParams (Names field) paramType params))"

definition extractParameters :: "FieldList \<Rightarrow> ParamInfo list" where
  "extractParameters flds = (case flds of None \<Rightarrow> [] | Some l \<Rightarrow> paramFields l [])"

text \<open>
  \<open>extractReturns\<close> appends one entry per field of the list; the struct literal names
  \<open>Type\<close> only, so \<open>Description\<close> is Go's zero value, the empty string.
\<close>

fun returnFields :: "Field list \<Rightarrow> ReturnInfo list \<Rightarrow> ReturnInfo list" where
  "returnFields [] returns = returns"
| "returnFields (field # flds) returns =
     returnFields flds
       (returns @ [\<lparr>re_Type = typeToString (Type field), re_Description = []\<rparr>])"

definition extractReturns :: "FieldList \<Rightarrow> ReturnInfo list" where
  "extractReturns flds = (case flds of None \<Rightarrow> [] | Some l \<Rightarrow> returnFields l [])"

fun namedFields :: "string list \<Rightarrow> string \<Rightarrow> string \<Rightarrow> FieldInfo list \<Rightarrow> FieldInfo list" where
  "namedFields [] fieldType tag flds = flds"
| "namedFields (name # names) fieldType tag flds =
     namedFields names fieldType tag
       (flds @ [\<lparr>fl_Name = name, fl_Type = fieldType, fl_Tag = tag, fl_Description = []\<rparr>])"

fun structFields :: "Field list \<Rightarrow> FieldInfo list \<Rightarrow> FieldInfo list" where
  "structFields [] flds = flds"
| "structFields (field # rest) flds =
     (let fieldType = typeToString (Type field);
          tag = (case Tag field of None \<Rightarrow> [] | Some v \<Rightarrow> v) in
      if length (Names field) = 0
      then structFields rest
             (flds @ [\<lparr>fl_Name = [], fl_Type = fieldType, fl_Tag = tag, fl_Description = []\<rparr>])
      else structFields rest (namedFields (Names field) fieldType tag flds))"

text \<open>\<open>extractFields\<close> receives the field list of an \<open>*ast.StructType\<close>.\<close>

definition extractFields :: "Field list \<Rightarrow> FieldInfo list" where
  "extractFields l = structFields l []"

text \<open>
  \<open>getFunctionSignature\<close> reads \<open>decl.Type.Params\<close> without a nil check of \<open>decl.Type\<close>: on a
  declaration without a type node it panics. Its one caller checks first.
\<close>

datatype panic = NilPointerDereference

definition getFunctionSignature :: "FuncDecl \<Rightarrow> panic + string" where
  "getFunctionSignature decl =
     (let parts = [''func''];
          parts = (case fd_Recv decl of
                     Some recv \<Rightarrow> parts @ [''('' @ fieldListToString (Some recv) @ '')'']
                   | None \<Rightarrow> parts);
          parts = parts @ [fd_Name decl]
      in case fd_Type decl of
           None \<Rightarrow> Inl NilPointerDereference
         | Some typ \<Rightarrow>
             (let parts = (case ft_Params typ of
                             Some ps \<Rightarrow> parts @ [''('' @ fieldListToString (Some ps) @ '')'']
                           | None \<Rightarrow> parts @ [''()'']);
                  parts = (case ft_Results typ of
                             Some rs \<Rightarrow>
                               (let results = fieldListToString (Some rs) in
                                if length rs = 1 \<and> length (Names (rs ! 0)) = 0
                                then parts @ [results]
                                else parts @ [''('' @ results @ '')''])
                           | None \<Rightarrow> parts)
              in Inr (Join parts '' '')))"

section \<open>Documentation comments\<close>

fun cleanLines :: "string list \<Rightarrow> string list \<Rightarrow> string list" where
  "cleanLines [] cleaned = cleaned"
| "cleanLines (line # lines) cleaned =
     (let line = TrimSpace line in
      if line \<noteq> [] then cleanLines lines (cleaned @ [line]) else cleanLines lines cleaned)"

definition cleanDoc :: "string \<Rightarrow> string" where
  "cleanDoc doc =
     (if doc = [] then []
      else (let doc = TrimSpace doc;
                doc = ReplaceAllCRLF doc;
                lines = SplitLines doc
            in Join (cleanLines lines []) [CHR 0x0A]))"

text \<open>
  The loop of \<open>extractExamples\<close> over the lines of the comment. Its state is the flag
  \<open>inExample\<close>, the buffer \<open>currentExample\<close> and the examples found so far; each
  \<open>continue\<close> of the source is a recursive call on the remaining lines.
\<close>

fun scanLines :: "string list \<Rightarrow> bool \<Rightarrow> string \<Rightarrow> string list \<Rightarrow> string list" where
  "scanLines [] inExample currentExample examples = examples"
| "scanLines (line # lines) inExample currentExample examples =
     (let trimmed = TrimSpace line in
      if HasPrefix trimmed ''Example:'' \<or> HasPrefix trimmed ''Usage:'' \<or>
         Contains trimmed ''```go''
      then scanLines lines True [] examples
      else if inExample then
        (if Contains trimmed ''```'' \<or> (trimmed = [] \<and> length currentExample > 0) then
           (if length currentExample > 0
            then scanLines lines False [] (examples @ [currentExample])
            else scanLines lines False currentExample examples)
         else if HasPrefix line ''    '' \<or> HasPrefix line [CHR 0x09] then
           scanLines lines True
             (currentExample @ TrimPrefix (TrimPrefix line ''    '') [CHR 0x09] @ [CHR 0x0A])
             examples
         else scanLines lines True currentExample examples)
      else scanLines lines False currentExample examples)"

definition extractExamples :: "string \<Rightarrow> string list" where
  "extractExamples doc = scanLines (SplitLines doc) False [] []"

section \<open>The declarations as go/doc and go/parser hand them over\<close>

record doc_Func =
  df_Name :: string
  df_Doc :: string
  df_Decl :: "FuncDecl option"

record doc_Type =
  dt_Name :: string
  dt_Doc :: string
  dt_Decl :: "GenDecl option"
  dt_Methods :: "doc_Func list"

record doc_Value =
  dv_Doc :: string
  dv_Decl :: GenDecl

record doc_Package =
  dp_Name :: string
  dp_Doc :: string
  dp_Funcs :: "doc_Func list"
  dp_Types :: "doc_Type list"
  dp_Consts :: "doc_Value list"
  dp_Vars :: "doc_Value list"

text \<open>
  An \<open>*ast.File\<close> with the \<open>Path.Value\<close> of each of its imports. The \<open>Files\<close> of an
  \<open>*ast.Package\<close> are a Go map, listed here in some order; the analyser only collects
  the set of their import paths, which is the same for every order of the files.
\<close>

record ast_File =
  af_Imports :: "string list"

record ast_Package =
  ap_Name :: string
  ap_Files :: "(string \<times> ast_File) list"

text \<open>
  What \<open>parser.ParseDir\<close> returned: the map from package name to package, and the error.
  The map is listed in the order in which the \<open>range\<close> statement of this run visits it.
  Go leaves that order open, so two runs on one map may see two different listings of it.
\<close>

record ParseDirResult =
  pd_pkgs :: "(string \<times> ast_Package) list"
  pd_err :: "string option"

text \<open>
  The library functions that are taken as given: \<open>ast.IsExported\<close>, \<open>doc.New(pkg, "./", 0)\<close>,
  and the order in which a \<open>range\<close> statement visits the keys of the import set.
\<close>

record Library =
  IsExported :: "string \<Rightarrow> bool"
  docNew :: "ast_Package \<Rightarrow> doc_Package"
  rangeKeys :: "string list \<Rightarrow> string list"

section \<open>The analyser\<close>

text \<open>
  \<open>analyseFunctionDecl\<close> calls \<open>getFunctionSignature\<close> under its nil checks of \<open>fn.Decl\<close>
  and \<open>fn.Decl.Type\<close>, where the call does not panic; the case of a panic is written
  out only because the result type has it, and it leaves the record as it is.
\<close>

definition analyseFunctionDecl :: "Library \<Rightarrow> doc_Func \<Rightarrow> FunctionInfo" where
  "analyseFunctionDecl lib fn =
     (let info = \<lparr>fn_Name = df_Name fn, fn_Signature = [],
                   fn_Description = cleanDoc (df_Doc fn),
                   fn_Parameters = [], fn_Returns = [],
                   fn_Examples = extractExamples (df_Doc fn),
                   fn_IsExported = IsExported lib (df_Name fn),
                   fn_IsMethod = False, fn_Receiver = []\<rparr>
      in case df_Decl fn of
           None \<Rightarrow> info
         | Some decl \<Rightarrow>
             (case fd_Type decl of
                None \<Rightarrow> info
              | Some typ \<Rightarrow>
                  (case getFunctionSignature decl of
                     Inl _ \<Rightarrow> info
                   | Inr signature \<Rightarrow>
                       info\<lparr>fn_Signature := signature,
                            fn_Parameters := extractParameters (ft_Params typ),
                            fn_Returns := extractReturns (ft_Results typ)\<rparr>)))"

fun typeSpecs :: "Spec list \<Rightarrow> TypeInfo \<Rightarrow> TypeInfo" where
  "typeSpecs [] info = info"
| "typeSpecs (spec # specs) info =
     (case spec of
        TypeSpecNode t \<Rightarrow>
          (let info = info\<lparr>ty_Kind := getTypeKind t\<rparr>;
               info = (case t of StructType l \<Rightarrow> info\<lparr>ty_Fields := extractFields l\<rparr>
                       | _ \<Rightarrow> info)
           in typeSpecs specs info)
      | _ \<Rightarrow> typeSpecs specs info)"

fun methodNames :: "doc_Func list \<Rightarrow> TypeInfo \<Rightarrow> TypeInfo" where
  "methodNames [] info = info"
| "methodNames (method # methods) info =
     methodNames methods (info\<lparr>ty_Methods := ty_Methods info @ [df_Name method]\<rparr>)"

definition analyseTypeDecl :: "Library \<Rightarrow> doc_Type \<Rightarrow> TypeInfo" where
  "analyseTypeDecl lib typ =
     (let info = \<lparr>ty_Name = dt_Name typ, ty_Kind = [],
                   ty_Description = cleanDoc (dt_Doc typ),
                   ty_Fields = [], ty_Methods = [],
                   ty_IsExported = IsExported lib (dt_Name typ)\<rparr>;
          info = (case dt_Decl typ of None \<Rightarrow> info
                  | Some decl \<Rightarrow> typeSpecs (gd_Specs decl) info)
      in methodNames (dt_Methods typ) info)"

text \<open>The loop over \<open>vs.Names\<close> in \<open>analyseConstantDecl\<close>, with its index \<open>i\<close>.\<close>

fun constNames ::
  "Library \<Rightarrow> doc_Value \<Rightarrow> ValueSpec \<Rightarrow> nat \<Rightarrow> string list \<Rightarrow> ConstantInfo list \<Rightarrow>
   ConstantInfo list" where
  "constNames lib c vs i [] constants = constants"
| "constNames lib c vs i (name # names) constants =
     (let constInfo = \<lparr>co_Name = name, co_Type = [], co_Value = [],
                        co_Description = cleanDoc (dv_Doc c),
                        co_IsExported = IsExported lib name\<rparr>;
          constInfo = (case vs_Type vs of
                         Some t \<Rightarrow> constInfo\<lparr>co_Type := typeToString t\<rparr>
                       | None \<Rightarrow> constInfo);
          constInfo = (if i < length (vs_Values vs)
                       then (case vs_Values vs ! i of
                               Some e \<Rightarrow> constInfo\<lparr>co_Value := exprToString e\<rparr>
                             | None \<Rightarrow> constInfo)
                       else constInfo)
      in constNames lib c vs (Suc i) names (constants @ [constInfo]))"

fun constSpecs ::
  "Library \<Rightarrow> doc_Value \<Rightarrow> Spec list \<Rightarrow> ConstantInfo list \<Rightarrow> ConstantInfo list" where
  "constSpecs lib c [] constants = constants"
| "constSpecs lib c (spec # specs) constants =
     (case spec of
        ValueSpecNode vs \<Rightarrow>
          constSpecs lib c specs (constNames lib c vs 0 (vs_Names vs) constants)
      | _ \<Rightarrow> constSpecs lib c specs constants)"

definition analyseConstantDecl :: "Library \<Rightarrow> doc_Value \<Rightarrow> ConstantInfo list" where
  "analyseConstantDecl lib c = constSpecs lib c (gd_Specs (dv_Decl c)) []"

fun varNames ::
  "Library \<Rightarrow> doc_Value \<Rightarrow> ValueSpec \<Rightarrow> string list \<Rightarrow> VariableInfo list \<Rightarrow>
   VariableInfo list" where
  "varNames lib v vs [] variables = variables"
| "varNames lib v vs (name # names) variables =
     (let varInfo = \<lparr>va_Name = name, va_Type = [],
                      va_Description = cleanDoc (dv_Doc v),
                      va_IsExported = IsExported lib name\<rparr>;
          varInfo = (case vs_Type vs of
                       Some t \<Rightarrow> varInfo\<lparr>va_Type := typeToString t\<rparr>
                     | None \<Rightarrow> varInfo)
      in varNames lib v vs names (variables @ [varInfo]))"

fun varSpecs ::
  "Library \<Rightarrow> doc_Value \<Rightarrow> Spec list \<Rightarrow> VariableInfo list \<Rightarrow> VariableInfo list" where
  "varSpecs lib v [] variables = variables"
| "varSpecs lib v (spec # specs) variables =
     (case spec of
        ValueSpecNode vs \<Rightarrow> varSpecs lib v specs (varNames lib v vs (vs_Names vs) variables)
      | _ \<Rightarrow> varSpecs lib v specs variables)"

definition analyseVariableDecl :: "Library \<Rightarrow> doc_Value \<Rightarrow> VariableInfo list" where
  "analyseVariableDecl lib v = varSpecs lib v (gd_Specs (dv_Decl v)) []"

text \<open>
  \<open>extractImports\<close>: the import set is a Go map with \<open>true\<close> at every key, kept here as the
  list of its keys without repetition. The second loop ranges over that map, in the order
  \<open>rangeKeys\<close> gives.
\<close>

fun fileImports :: "string list \<Rightarrow> string list \<Rightarrow> string list" where
  "fileImports [] importSet = importSet"
| "fileImports (imp # imps) importSet =
     (let path = Trim imp [CHR 0x22] in fileImports imps (List.insert path importSet))"

fun packageImports :: "(string \<times> ast_File) list \<Rightarrow> string list \<Rightarrow> string list" where
  "packageImports [] importSet = importSet"
| "packageImports ((name, file) # files) importSet =
     packageImports files (fileImports (af_Imports file) importSet)"

fun appendImports :: "string list \<Rightarrow> string list \<Rightarrow> string list" where
  "appendImports [] imports = imports"
| "appendImports (imp # imps) imports = appendImports imps (imports @ [imp])"

definition extractImports :: "Library \<Rightarrow> ast_Package \<Rightarrow> string list" where
  "extractImports lib pkg =
     (let importSet = packageImports (ap_Files pkg) []
      in appendImports (rangeKeys lib importSet) [])"

text \<open>The four loops of \<open>AnalysePackage\<close> over the declarations of the package.\<close>

fun analyseFuncs :: "Library \<Rightarrow> doc_Func list \<Rightarrow> PackageInfo \<Rightarrow> PackageInfo" where
  "analyseFuncs lib [] info = info"
| "analyseFuncs lib (fn # fns) info =
     (let fnInfo = analyseFunctionDecl lib fn
      in analyseFuncs lib fns (info\<lparr>Functions := Functions info @ [fnInfo]\<rparr>))"

fun analyseMethods ::
  "Library \<Rightarrow> doc_Type \<Rightarrow> doc_Func list \<Rightarrow> PackageInfo \<Rightarrow> PackageInfo" where
  "analyseMethods lib typ [] info = info"
| "analyseMethods lib typ (method # methods) info =
     (let methodInfo = analyseFunctionDecl lib method;
          methodInfo = methodInfo\<lparr>fn_IsMethod := True\<rparr>;
          methodInfo = methodInfo\<lparr>fn_Receiver := dt_Name typ\<rparr>
      in analyseMethods lib typ methods (info\<lparr>Functions := Functions info @ [methodInfo]\<rparr>))"

fun analyseTypes :: "Library \<Rightarrow> doc_Type list \<Rightarrow> PackageInfo \<Rightarrow> PackageInfo" where
  "analyseTypes lib [] info = info"
| "analyseTypes lib (typ # typs) info =
     (let typeInfo = analyseTypeDecl lib typ;
          info = info\<lparr>Types := Types info @ [typeInfo]\<rparr>;
          info = analyseMethods lib typ (dt_Methods typ) info
      in analyseTypes lib typs info)"

fun analyseConsts :: "Library \<Rightarrow> doc_Value list \<Rightarrow> PackageInfo \<Rightarrow> PackageInfo" where
  "analyseConsts lib [] info = info"
| "analyseConsts lib (c # cs) info =
     (let constInfo = analyseConstantDecl lib c
      in analyseConsts lib cs (info\<lparr>Constants := Constants info @ constInfo\<rparr>))"

fun analyseVars :: "Library \<Rightarrow> doc_Value list \<Rightarrow> PackageInfo \<Rightarrow> PackageInfo" where
  "analyseVars lib [] info = info"
| "analyseVars lib (v # vs) info =
     (let varInfo = analyseVariableDecl lib v
      in analyseVars lib vs (info\<lparr>Variables := Variables info @ varInfo\<rparr>))"

text \<open>
  The selection loop: the first entry, in visiting order, whose name does not end in
  \<open>_test\<close>; \<open>None\<close> is the nil pointer that remains when the loop finds no such entry.
\<close>

fun selectPackage :: "(string \<times> ast_Package) list \<Rightarrow> ast_Package option" where
  "selectPackage [] = None"
| "selectPackage ((name, p) # rest) =
     (if \<not> HasSuffix name ''_test'' then Some p else selectPackage rest)"

text \<open>
  The two errors of \<open>AnalysePackage\<close>: \<open>LoadError\<close> wraps the parser's error
  (\<open>parsing package: ...\<close>), \<open>NoPackageFound\<close> carries the directory
  (\<open>no Golang package found in ...\<close>). With an error the returned pointer is nil.
\<close>

datatype analyse_error = LoadError string | NoPackageFound string

definition AnalysePackage ::
  "Library \<Rightarrow> string \<Rightarrow> ParseDirResult \<Rightarrow> analyse_error + PackageInfo" where
  "AnalysePackage lib dir parsed =
     (case pd_err parsed of
        Some err \<Rightarrow> Inl (LoadError err)
      | None \<Rightarrow>
          (case selectPackage (pd_pkgs parsed) of
             None \<Rightarrow> Inl (NoPackageFound dir)
           | Some pkg \<Rightarrow>
               (let docPkg = docNew lib pkg;
                    info = \<lparr>Name = dp_Name docPkg, Path = dir,
                            Description = cleanDoc (dp_Doc docPkg),
                            Functions = [], Types = [], Constants = [], Variables = [],
                            Examples = [], Imports = extractImports lib pkg\<rparr>;
                    info = analyseFuncs lib (dp_Funcs docPkg) info;
                    info = analyseTypes lib (dp_Types docPkg) info;
                    info = analyseConsts lib (dp_Consts docPkg) info;
                    info = analyseVars lib (dp_Vars docPkg) info
                in Inr info)))"

section \<open>The enhancement stage of the generator\<close>

record DocConfig =
  ProjectName :: string
  ProjectDesc :: string
  OutputDir :: string
  IncludePrivate :: bool
  GenerateExamples :: bool
  Style :: string

text \<open>
  The language model and the template engine are outside the repository. A Go \<open>error\<close> is
  its message, on the left of a sum. \<open>GenerateContent\<close> gives the content of the first
  choice of the response; the call site is an argument, so that two calls with one prompt
  may answer differently. The prompt functions stand for \<open>template.Format\<close> on the values
  each helper passes, and \<open>Execute\<close> for the execution of the package template.
  Every helper formats its prompt, returns the first error it meets, and otherwise returns
  the content trimmed by \<open>strings.TrimSpace\<close>; \<open>respond\<close> is that common tail.
\<close>

datatype call =
    PackageDescription
  | FunctionDescription nat
  | TypeDescription nat
  | PackageExample
  | FunctionExample nat

record LanguageService =
  packagePrompt :: "string \<Rightarrow> string \<Rightarrow> FunctionInfo list \<Rightarrow> TypeInfo list \<Rightarrow> string + string"
  functionPrompt :: "string \<Rightarrow> string \<Rightarrow> ParamInfo list \<Rightarrow> ReturnInfo list \<Rightarrow> string + string"
  typePrompt :: "string \<Rightarrow> string \<Rightarrow> FieldInfo list \<Rightarrow> string list \<Rightarrow> string + string"
  packageExamplePrompt ::
    "string \<Rightarrow> string \<Rightarrow> FunctionInfo list \<Rightarrow> TypeInfo list \<Rightarrow> string + string"
  functionExamplePrompt :: "string \<Rightarrow> string \<Rightarrow> string \<Rightarrow> ParamInfo list \<Rightarrow> string + string"
  GenerateContent :: "call \<Rightarrow> string \<Rightarrow> string + string"
  Execute :: "PackageInfo \<Rightarrow> string + string"

definition respond :: "LanguageService \<Rightarrow> call \<Rightarrow> string + string \<Rightarrow> string + string" where
  "respond svc site formatted =
     (case formatted of
        Inl err \<Rightarrow> Inl err
      | Inr prompt \<Rightarrow>
          (case GenerateContent svc site prompt of
             Inl err \<Rightarrow> Inl err
           | Inr content \<Rightarrow> Inr (TrimSpace content)))"

definition enhancePackageDescription :: "LanguageService \<Rightarrow> PackageInfo \<Rightarrow> string + string" where
  "enhancePackageDescription svc pkg =
     respond svc PackageDescription
       (packagePrompt svc (Name pkg) (Path pkg) (Functions pkg) (Types pkg))"

definition enhanceFunctionDescription ::
  "LanguageService \<Rightarrow> nat \<Rightarrow> FunctionInfo \<Rightarrow> string + string" where
  "enhanceFunctionDescription svc i fn =
     respond svc (FunctionDescription i)
       (functionPrompt svc (fn_Name fn) (fn_Signature fn) (fn_Parameters fn) (fn_Returns fn))"

definition enhanceTypeDescription ::
  "LanguageService \<Rightarrow> nat \<Rightarrow> TypeInfo \<Rightarrow> string + string" where
  "enhanceTypeDescription svc i typ =
     respond svc (TypeDescription i)
       (typePrompt svc (ty_Name typ) (ty_Kind typ) (ty_Fields typ) (ty_Methods typ))"

definition generatePackageExample :: "LanguageService \<Rightarrow> PackageInfo \<Rightarrow> string + string" where
  "generatePackageExample svc pkg =
     respond svc PackageExample
       (packageExamplePrompt svc (Name pkg) (Description pkg) (Functions pkg) (Types pkg))"

definition generateFunctionExample ::
  "LanguageService \<Rightarrow> nat \<Rightarrow> FunctionInfo \<Rightarrow> PackageInfo \<Rightarrow> string + string" where
  "generateFunctionExample svc i fn pkg =
     respond svc (FunctionExample i)
       (functionExamplePrompt svc (fn_Name fn) (fn_Signature fn) (Name pkg) (fn_Parameters fn))"

text \<open>
  The bodies of the loops \<open>for i := range pkg.Functions\<close> and \<open>for i := range pkg.Types\<close>.
  They run inside the bounds of the slice, which \<open>range\<close> fixes on entry.
\<close>

definition enhanceFunctionAt :: "LanguageService \<Rightarrow> nat \<Rightarrow> PackageInfo \<Rightarrow> PackageInfo" where
  "enhanceFunctionAt svc i pkg =
     (if length (fn_Description (Functions pkg ! i)) < 20 then
        (case enhanceFunctionDescription svc i (Functions pkg ! i) of
           Inr enhanced \<Rightarrow>
             (if enhanced \<noteq> []
              then pkg\<lparr>Functions :=
                         (Functions pkg)[i := (Functions pkg ! i)\<lparr>fn_Description := enhanced\<rparr>]\<rparr>
              else pkg)
         | Inl err \<Rightarrow> pkg)
      else pkg)"

definition enhanceTypeAt :: "LanguageService \<Rightarrow> nat \<Rightarrow> PackageInfo \<Rightarrow> PackageInfo" where
  "enhanceTypeAt svc i pkg =
     (if length (ty_Description (Types pkg ! i)) < 20 then
        (case enhanceTypeDescription svc i (Types pkg ! i) of
           Inr enhanced \<Rightarrow>
             (if enhanced \<noteq> []
              then pkg\<lparr>Types := (Types pkg)[i := (Types pkg ! i)\<lparr>ty_Description := enhanced\<rparr>]\<rparr>
              else pkg)
         | Inl err \<Rightarrow> pkg)
      else pkg)"

text \<open>\<open>enhanceDescriptions\<close> changes the package in place and always returns a nil error.\<close>

definition enhanceDescriptions :: "LanguageService \<Rightarrow> PackageInfo \<Rightarrow> PackageInfo" where
  "enhanceDescriptions svc pkg =
     (let pkg = (if length (Description pkg) < 50 then
                   (case enhancePackageDescription svc pkg of
                      Inr enhanced \<Rightarrow>
                        (if enhanced \<noteq> [] then pkg\<lparr>Description := enhanced\<rparr> else pkg)
                    | Inl err \<Rightarrow> pkg)
                 else pkg);
          pkg = fold (enhanceFunctionAt svc) [0..<length (Functions pkg)] pkg;
          pkg = fold (enhanceTypeAt svc) [0..<length (Types pkg)] pkg
      in pkg)"

definition exampleFunctionAt :: "LanguageService \<Rightarrow> nat \<Rightarrow> PackageInfo \<Rightarrow> PackageInfo" where
  "exampleFunctionAt svc i pkg =
     (if length (fn_Examples (Functions pkg ! i)) = 0 \<and> fn_IsExported (Functions pkg ! i) then
        (case generateFunctionExample svc i (Functions pkg ! i) pkg of
           Inr example \<Rightarrow>
             (if example \<noteq> []
              then pkg\<lparr>Functions :=
                         (Functions pkg)[i := (Functions pkg ! i)
                            \<lparr>fn_Examples := fn_Examples (Functions pkg ! i) @ [example]\<rparr>]\<rparr>
              else pkg)
         | Inl err \<Rightarrow> pkg)
      else pkg)"

text \<open>\<open>generateExamples\<close> changes the package in place and always returns a nil error.\<close>

definition generateExamples :: "LanguageService \<Rightarrow> PackageInfo \<Rightarrow> PackageInfo" where
  "generateExamples svc pkg =
     (let pkg = (if length (Examples pkg) = 0 then
                   (case generatePackageExample svc pkg of
                      Inr example \<Rightarrow>
                        (if example \<noteq> []
                         then pkg\<lparr>Examples := Examples pkg @
                                [\<lparr>ex_Name = ''Basic Usage'', ex_Code = example,
                                  ex_Doc = ''Basic usage example''\<rparr>]\<rparr>
                         else pkg)
                    | Inl err \<Rightarrow> pkg)
                 else pkg);
          pkg = fold (exampleFunctionAt svc) [0..<length (Functions pkg)] pkg
      in pkg)"

text \<open>
  \<open>GeneratePackageDoc\<close>: the enhancement stage, then the template. The result pairs what the
  function returns with the package as the stage leaves it behind its pointer.
\<close>

definition GeneratePackageDoc ::
  "LanguageService \<Rightarrow> PackageInfo \<Rightarrow> DocConfig \<Rightarrow> (string + string) \<times> PackageInfo" where
  "GeneratePackageDoc svc pkg config =
     (let pkg = enhanceDescriptions svc pkg;
          pkg = (if GenerateExamples config then generateExamples svc pkg else pkg)
      in (case Execute svc pkg of
            Inl err \<Rightarrow> (Inl (''executing template: '' @ err), pkg)
          | Inr result \<Rightarrow> (Inr result, pkg)))"

section \<open>The signature format as the specification words it\<close>

text \<open>
  The specification gives the signature as
  \<open><keyword> [(<receiver-name> <receiver-type>)] <name>(<params>) <returns>\<close>: the parameter
  list follows the name directly, and the return clause is the bare type of a single
  unnamed return value and a parenthesized list in every other case, none included.
\<close>

definition claimedSignature :: "FuncDecl \<Rightarrow> FuncType \<Rightarrow> string" where
  "claimedSignature decl typ =
     ''func '' @
     (case fd_Recv decl of
        None \<Rightarrow> []
      | Some recv \<Rightarrow> ''('' @ fieldListToString (Some recv) @ '') '') @
     fd_Name decl @ ''('' @ fieldListToString (ft_Params typ) @ '') '' @
     (let returns = (case ft_Results typ of None \<Rightarrow> [] | Some rs \<Rightarrow> rs) in
      if length returns = 1 \<and> Names (hd returns) = [] then typeToString (Type (hd returns))
      else ''('' @ fieldListToString (Some returns) @ '')'')"

section \<open>The step of the example scanner as the specification words it\<close>

text \<open>
  The specification says of a line read in the state \<open>InExample\<close>: it is appended to the
  buffer with one layer of leading indentation (a tab, or four spaces) stripped, only if it
  carries that indentation; a line without it is ignored; the state stays \<open>InExample\<close>.
  \<open>claimedInExample\<close> is the buffer after such a line.
\<close>

definition stripOneLayer :: "string \<Rightarrow> string" where
  "stripOneLayer line =
     (if HasPrefix line [CHR 0x09] then TrimPrefix line [CHR 0x09]
      else TrimPrefix line ''    '')"

definition claimedInExample :: "string \<Rightarrow> string \<Rightarrow> string" where
  "claimedInExample line buffer =
     (if HasPrefix line [CHR 0x09] \<or> HasPrefix line ''    ''
      then buffer @ stripOneLayer line @ [CHR 0x0A]
      else buffer)"

section \<open>A package to run the analyser on\<close>

text \<open>
  A package \<open>stack\<close> with a function \<open>Max\<close>, a struct type \<open>Stack\<close> with a method
  \<open>Push\<close>, and the constant group \<open>A, B = 1\<close>; beside it the package \<open>stack_test\<close>.
\<close>

definition pushType :: FuncType where
  "pushType = \<lparr>ft_Params = Some [Field [''x''] (Ident ''int'') None], ft_Results = None\<rparr>"

definition pushDecl :: FuncDecl where
  "pushDecl =
     \<lparr>fd_Recv = Some [Field [''s''] (StarExpr (Ident ''Stack'')) None],
      fd_Name = ''Push'', fd_Type = Some pushType\<rparr>"

definition maxType :: FuncType where
  "maxType =
     \<lparr>ft_Params = Some [Field [''a'', ''b''] (Ident ''int'') None],
      ft_Results = Some [Field [] (Ident ''int'') None]\<rparr>"

definition maxDecl :: FuncDecl where
  "maxDecl = \<lparr>fd_Recv = None, fd_Name = ''Max'', fd_Type = Some maxType\<rparr>"

definition limitsSpec :: ValueSpec where
  "limitsSpec =
     \<lparr>vs_Names = [''A'', ''B''], vs_Type = None, vs_Values = [Some (BasicLit ''1'')]\<rparr>"

definition limitsGroup :: doc_Value where
  "limitsGroup =
     \<lparr>dv_Doc = ''Limits.'' @ [CHR 0x0A],
      dv_Decl = \<lparr>gd_Specs = [ValueSpecNode limitsSpec]\<rparr>\<rparr>"

definition pairSpec :: ValueSpec where
  "pairSpec =
     \<lparr>vs_Names = [''A'', ''B''], vs_Type = None,
      vs_Values = [Some (BasicLit ''1''), Some (BasicLit ''2'')]\<rparr>"

definition pairGroup :: doc_Value where
  "pairGroup = \<lparr>dv_Doc = [], dv_Decl = \<lparr>gd_Specs = [ValueSpecNode pairSpec]\<rparr>\<rparr>"

definition stackDoc :: doc_Package where
  "stackDoc =
     \<lparr>dp_Name = ''stack'',
      dp_Doc = ''Package stack.'' @ [CHR 0x0A],
      dp_Funcs =
        [\<lparr>df_Name = ''Max'', df_Doc = ''Max is the larger.'' @ [CHR 0x0A],
          df_Decl = Some maxDecl\<rparr>],
      dp_Types =
        [\<lparr>dt_Name = ''Stack'', dt_Doc = ''Stack holds ints.'' @ [CHR 0x0A],
          dt_Decl = Some \<lparr>gd_Specs =
            [TypeSpecNode (StructType [Field [''items''] (ArrayType (Ident ''int'')) None])]\<rparr>,
          dt_Methods =
            [\<lparr>df_Name = ''Push'',
              df_Doc = ''Push adds x.'' @ [CHR 0x0A, CHR 0x0A] @ ''Usage:'' @
                       [CHR 0x0A, CHR 0x09] @ ''s.Push(1)'' @ [CHR 0x0A, CHR 0x0A],
              df_Decl = Some pushDecl\<rparr>]\<rparr>],
      dp_Consts = [limitsGroup],
      dp_Vars = []\<rparr>"

definition stackPackage :: ast_Package where
  "stackPackage =
     \<lparr>ap_Name = ''stack'',
      ap_Files =
        [(''stack.go'',
          \<lparr>af_Imports = [[CHR 0x22] @ ''fmt'' @ [CHR 0x22], [CHR 0x22] @ ''os'' @ [CHR 0x22]]\<rparr>)]\<rparr>"

definition stackTestPackage :: ast_Package where
  "stackTestPackage =
     \<lparr>ap_Name = ''stack_test'',
      ap_Files =
        [(''stack_test.go'', \<lparr>af_Imports = [[CHR 0x22] @ ''testing'' @ [CHR 0x22]]\<rparr>)]\<rparr>"

definition queuePackage :: ast_Package where
  "queuePackage = \<lparr>ap_Name = ''queue'', ap_Files = []\<rparr>"

definition exampleLibrary :: Library where
  "exampleLibrary =
     \<lparr>IsExported = (\<lambda>name. case name of [] \<Rightarrow> False
                        | c # _ \<Rightarrow> c \<in> set ''ABCDEFGHIJKLMNOPQRSTUVWXYZ''),
      docNew = (\<lambda>pkg. stackDoc\<lparr>dp_Name := ap_Name pkg\<rparr>),
      rangeKeys = (\<lambda>keys. keys)\<rparr>"

definition stackParsed :: ParseDirResult where
  "stackParsed =
     \<lparr>pd_pkgs = [(''stack_test'', stackTestPackage), (''stack'', stackPackage)],
      pd_err = None\<rparr>"

text \<open>The model that the analyser builds for \<open>stackParsed\<close>.\<close>

definition stackInfo :: PackageInfo where
  "stackInfo =
     \<lparr>Name = ''stack'', Path = ''./stack'', Description = ''Package stack.'',
      Functions =
        [\<lparr>fn_Name = ''Max'', fn_Signature = ''func Max (a int, b int) int'',
          fn_Description = ''Max is the larger.'',
          fn_Parameters = [\<lparr>pa_Name = ''a'', pa_Type = ''int''\<rparr>,
                           \<lparr>pa_Name = ''b'', pa_Type = ''int''\<rparr>],
          fn_Returns = [\<lparr>re_Type = ''int'', re_Description = []\<rparr>],
          fn_Examples = [], fn_IsExported = True, fn_IsMethod = False, fn_Receiver = []\<rparr>,
         \<lparr>fn_Name = ''Push'', fn_Signature = ''func (s *Stack) Push (x int)'',
          fn_Description = ''Push adds x.'' @ [CHR 0x0A] @ ''Usage:'' @ [CHR 0x0A] @ ''s.Push(1)'',
          fn_Parameters = [\<lparr>pa_Name = ''x'', pa_Type = ''int''\<rparr>],
          fn_Returns = [], fn_Examples = [''s.Push(1)'' @ [CHR 0x0A]],
          fn_IsExported = True, fn_IsMethod = True, fn_Receiver = ''Stack''\<rparr>],
      Types =
        [\<lparr>ty_Name = ''Stack'', ty_Kind = ''struct'', ty_Description = ''Stack holds ints.'',
          ty_Fields = [\<lparr>fl_Name = ''items'', fl_Type = ''[]int'', fl_Tag = [],
                        fl_Description = []\<rparr>],
          ty_Methods = [''Push''], ty_IsExported = True\<rparr>],
      Constants =
        [\<lparr>co_Name = ''A'', co_Type = [], co_Value = ''1'', co_Description = ''Limits.'',
          co_IsExported = True\<rparr>,
         \<lparr>co_Name = ''B'', co_Type = [], co_Value = [], co_Description = ''Limits.'',
          co_IsExported = True\<rparr>],
      Variables = [], Examples = [], Imports = [''os'', ''fmt'']\<rparr>"

text \<open>A package that is documented already, and a language service that always answers.\<close>

definition documentedPackage :: PackageInfo where
  "documentedPackage =
     stackInfo
       \<lparr>Description := ''Package stack implements a bounded stack of machine integers.'',
        Functions := [(Functions stackInfo ! 1)
                        \<lparr>fn_Description := ''Push adds x on top of the stack.''\<rparr>],
        Types := [(Types stackInfo ! 0)
                    \<lparr>ty_Description := ''Stack holds the pushed integers.''\<rparr>],
        Examples := [\<lparr>ex_Name = ''Push'', ex_Code = ''s.Push(1)'', ex_Doc = []\<rparr>]\<rparr>"

definition exampleService :: LanguageService where
  "exampleService =
     \<lparr>packagePrompt = (\<lambda>name path fns typs. Inr (''package '' @ name)),
      functionPrompt = (\<lambda>name sig params returns. Inr (''function '' @ name)),
      typePrompt = (\<lambda>name kind flds methods. Inr (''type '' @ name)),
      packageExamplePrompt = (\<lambda>name desc fns typs. Inr (''example '' @ name)),
      functionExamplePrompt = (\<lambda>name sig pkg params. Inr (''example '' @ name)),
      GenerateContent = (\<lambda>site prompt. Inr ('' Generated for '' @ prompt @ ''. '')),
      Execute = (\<lambda>pkg. Inr (Name pkg))\<rparr>"

definition exampleConfig :: DocConfig where
  "exampleConfig =
     \<lparr>ProjectName = ''stack'', ProjectDesc = [], OutputDir = ''./docs'',
      IncludePrivate = False, GenerateExamples = True, Style = ''markdown''\<rparr>"

section \<open>Notions used in the proofs\<close>

text \<open>The entry that the method loop of \<open>AnalysePackage\<close> appends for one method.\<close>

definition methodInfoOf :: "Library \<Rightarrow> doc_Type \<Rightarrow> doc_Func \<Rightarrow> FunctionInfo" where
  "methodInfoOf lib typ method =
     (analyseFunctionDecl lib method)\<lparr>fn_IsMethod := True, fn_Receiver := dt_Name typ\<rparr>"

text \<open>The model of a selected package, with every loop written as a map.\<close>

definition modelOf :: "Library \<Rightarrow> string \<Rightarrow> ast_Package \<Rightarrow> PackageInfo" where
  "modelOf lib dir pkg =
     \<lparr>Name = dp_Name (docNew lib pkg), Path = dir,
      Description = cleanDoc (dp_Doc (docNew lib pkg)),
      Functions = map (analyseFunctionDecl lib) (dp_Funcs (docNew lib pkg)) @
        concat (map (\<lambda>t. map (methodInfoOf lib t) (dt_Methods t)) (dp_Types (docNew lib pkg))),
      Types = map (analyseTypeDecl lib) (dp_Types (docNew lib pkg)),
      Constants = concat (map (analyseConstantDecl lib) (dp_Consts (docNew lib pkg))),
      Variables = concat (map (analyseVariableDecl lib) (dp_Vars (docNew lib pkg))),
      Examples = [], Imports = extractImports lib pkg\<rparr>"

text \<open>The entry for the name at position \<open>i\<close> of a constant group, and the entries of a spec.\<close>

definition constEntry ::
  "Library \<Rightarrow> doc_Value \<Rightarrow> ValueSpec \<Rightarrow> nat \<Rightarrow> string \<Rightarrow> ConstantInfo" where
  "constEntry lib c vs i name =
     \<lparr>co_Name = name,
      co_Type = (case vs_Type vs of Some t \<Rightarrow> typeToString t | None \<Rightarrow> []),
      co_Value = (if i < length (vs_Values vs)
                  then (case vs_Values vs ! i of Some e \<Rightarrow> exprToString e | None \<Rightarrow> [])
                  else []),
      co_Description = cleanDoc (dv_Doc c),
      co_IsExported = IsExported lib name\<rparr>"

definition specEntries :: "Library \<Rightarrow> doc_Value \<Rightarrow> Spec \<Rightarrow> ConstantInfo list" where
  "specEntries lib c spec =
     (case spec of
        ValueSpecNode vs \<Rightarrow>
          map (\<lambda>(j, name). constEntry lib c vs j name) (enumerate 0 (vs_Names vs))
      | _ \<Rightarrow> [])"

text \<open>
  What the enhancement stage leaves alone: a description at or above its threshold, a
  non-empty list of examples, and the number of functions and types.
\<close>

definition keeps :: "PackageInfo \<Rightarrow> PackageInfo \<Rightarrow> bool" where
  "keeps pkg pkg' \<longleftrightarrow>
     (50 \<le> length (Description pkg) \<longrightarrow> Description pkg' = Description pkg) \<and>
     (Examples pkg \<noteq> [] \<longrightarrow> Examples pkg' = Examples pkg) \<and>
     length (Functions pkg') = length (Functions pkg) \<and>
     length (Types pkg') = length (Types pkg) \<and>
     (\<forall>i < length (Functions pkg).
        (20 \<le> length (fn_Description (Functions pkg ! i)) \<longrightarrow>
           fn_Description (Functions pkg' ! i) = fn_Description (Functions pkg ! i)) \<and>
        (fn_Examples (Functions pkg ! i) \<noteq> [] \<longrightarrow>
           fn_Examples (Functions pkg' ! i) = fn_Examples (Functions pkg ! i))) \<and>
     (\<forall>i < length (Types pkg).
        20 \<le> length (ty_Description (Types pkg ! i)) \<longrightarrow>
          ty_Description (Types pkg' ! i) = ty_Description (Types pkg ! i))"

section \<open>Prefixes\<close>

lemma HasPrefix_append:
  assumes "HasPrefix s (p @ q)"
  shows "HasPrefix s p"
proof -
  from assms have "take (length p + length q) s = p @ q"
    by (simp add: HasPrefix_def)
  then have "take (length p) (take (length p + length q) s) = take (length p) (p @ q)"
    by simp
  then show ?thesis
    by (simp add: HasPrefix_def)
qed

lemma Contains_append: "Contains s (p @ q) \<Longrightarrow> Contains s p"
  by (induction s) (auto dest: HasPrefix_append)

lemma HasPrefix_drop:
  "HasPrefix s p \<Longrightarrow> HasPrefix (drop (length p) s) q \<Longrightarrow> HasPrefix s (p @ q)"
  unfolding HasPrefix_def by (simp add: take_add)

section \<open>The loops of the analyser in closed form\<close>

lemma returnFields_map:
  "returnFields l acc =
     acc @ map (\<lambda>f. \<lparr>re_Type = typeToString (Type f), re_Description = []\<rparr>) l"
  by (induction l arbitrary: acc) simp_all

lemma extractReturns_length: "length (extractReturns (Some l)) = length l"
  by (simp add: extractReturns_def returnFields_map)

lemma extractReturns_Description:
  "r \<in> set (extractReturns fl) \<Longrightarrow> re_Description r = []"
  by (cases fl) (auto simp: extractReturns_def returnFields_map)

lemma analyseFunctionDecl_Name: "fn_Name (analyseFunctionDecl lib fn) = df_Name fn"
  by (simp add: analyseFunctionDecl_def Let_def split: option.splits sum.splits)

lemma analyseFunctionDecl_Returns:
  "r \<in> set (fn_Returns (analyseFunctionDecl lib fn)) \<Longrightarrow> re_Description r = []"
  by (auto simp: analyseFunctionDecl_def Let_def extractReturns_Description
           split: option.splits sum.splits)

lemma analyseFuncs_eq:
  "analyseFuncs lib fns info =
     info\<lparr>Functions := Functions info @ map (analyseFunctionDecl lib) fns\<rparr>"
  by (induction fns arbitrary: info) simp_all

lemma analyseMethods_eq:
  "analyseMethods lib typ ms info =
     info\<lparr>Functions := Functions info @ map (methodInfoOf lib typ) ms\<rparr>"
  by (induction ms arbitrary: info) (simp_all add: methodInfoOf_def)

lemma analyseTypes_eq:
  "analyseTypes lib typs info =
     info\<lparr>Types := Types info @ map (analyseTypeDecl lib) typs,
          Functions := Functions info @
            concat (map (\<lambda>t. map (methodInfoOf lib t) (dt_Methods t)) typs)\<rparr>"
  by (induction typs arbitrary: info) (simp_all add: analyseMethods_eq)

lemma analyseConsts_eq:
  "analyseConsts lib cs info =
     info\<lparr>Constants := Constants info @ concat (map (analyseConstantDecl lib) cs)\<rparr>"
  by (induction cs arbitrary: info) simp_all

lemma analyseVars_eq:
  "analyseVars lib vs info =
     info\<lparr>Variables := Variables info @ concat (map (analyseVariableDecl lib) vs)\<rparr>"
  by (induction vs arbitrary: info) simp_all

lemma AnalysePackage_eq:
  "AnalysePackage lib dir parsed =
     (case pd_err parsed of
        Some err \<Rightarrow> Inl (LoadError err)
      | None \<Rightarrow> (case selectPackage (pd_pkgs parsed) of
                   None \<Rightarrow> Inl (NoPackageFound dir)
                 | Some pkg \<Rightarrow> Inr (modelOf lib dir pkg)))"
  by (simp add: AnalysePackage_def Let_def analyseFuncs_eq analyseTypes_eq analyseConsts_eq
        analyseVars_eq modelOf_def split: option.splits)

lemma AnalysePackage_Inr:
  assumes "AnalysePackage lib dir parsed = Inr info"
  obtains pkg where "selectPackage (pd_pkgs parsed) = Some pkg" and "info = modelOf lib dir pkg"
  using assms by (auto simp: AnalysePackage_eq split: option.splits)

lemma typeSpecs_keeps:
  "ty_Methods (typeSpecs specs info) = ty_Methods info \<and>
   ty_Name (typeSpecs specs info) = ty_Name info"
  by (induction specs arbitrary: info) (auto simp: Let_def split: Spec.splits Expr.splits)

lemma methodNames_eq:
  "methodNames ms info = info\<lparr>ty_Methods := ty_Methods info @ map df_Name ms\<rparr>"
  by (induction ms arbitrary: info) simp_all

lemma analyseTypeDecl_Name: "ty_Name (analyseTypeDecl lib typ) = dt_Name typ"
  by (simp add: analyseTypeDecl_def Let_def methodNames_eq typeSpecs_keeps split: option.splits)

lemma analyseTypeDecl_Methods:
  "ty_Methods (analyseTypeDecl lib typ) = map df_Name (dt_Methods typ)"
  by (simp add: analyseTypeDecl_def Let_def methodNames_eq typeSpecs_keeps split: option.splits)

lemma constNames_eq:
  "constNames lib c vs i names acc =
     acc @ map (\<lambda>(j, name). constEntry lib c vs j name) (enumerate i names)"
  by (induction names arbitrary: i acc)
     (simp_all add: Let_def constEntry_def split: option.splits)

lemma constSpecs_eq:
  "constSpecs lib c specs acc = acc @ concat (map (specEntries lib c) specs)"
  by (induction specs arbitrary: acc)
     (simp_all add: constNames_eq specEntries_def split: Spec.splits)

lemma appendImports_eq: "appendImports imps acc = acc @ imps"
  by (induction imps arbitrary: acc) simp_all

text \<open>The import set holds each path once, and is the same set for every order of the files.\<close>

lemma fileImports_set:
  "set (fileImports imps acc) = set acc \<union> (\<lambda>imp. Trim imp [CHR 0x22]) ` set imps"
  by (induction imps arbitrary: acc) (auto simp: Let_def)

lemma packageImports_set:
  "set (packageImports files acc) =
     set acc \<union> (\<Union>entry \<in> set files. (\<lambda>imp. Trim imp [CHR 0x22]) ` set (af_Imports (snd entry)))"
  by (induction files arbitrary: acc) (fastforce simp: fileImports_set)+

lemma fileImports_distinct: "distinct acc \<Longrightarrow> distinct (fileImports imps acc)"
  by (induction imps arbitrary: acc) (simp_all add: Let_def)

lemma packageImports_distinct: "distinct acc \<Longrightarrow> distinct (packageImports files acc)"
  by (induction files arbitrary: acc) (auto simp: fileImports_distinct)

lemma selectPackage_find:
  "selectPackage pkgs = map_option snd (find (\<lambda>entry. \<not> HasSuffix (fst entry) ''_test'') pkgs)"
  by (induction pkgs) auto

lemma selectPackage_None:
  "\<forall>(name, p) \<in> set pkgs. HasSuffix name ''_test'' \<Longrightarrow> selectPackage pkgs = None"
  by (induction pkgs) auto

lemma find_filter: "find P xs = (case filter P xs of [] \<Rightarrow> None | x # _ \<Rightarrow> Some x)"
  by (induction xs) auto

lemma filter_perm_short:
  assumes "mset ys = mset xs" and "length (filter P xs) \<le> 1"
  shows "filter P ys = filter P xs"
proof -
  have m: "mset (filter P ys) = mset (filter P xs)" using assms(1) by simp
  then have l: "length (filter P ys) = length (filter P xs)" by (metis size_mset)
  show ?thesis
  proof (cases "filter P xs")
    case Nil
    then show ?thesis using l by simp
  next
    case (Cons x rest)
    then have rest: "rest = []" using assms(2) by simp
    with Cons l obtain y where y: "filter P ys = [y]" by (auto simp: length_Suc_conv)
    with m Cons rest show ?thesis by simp
  qed
qed

text \<open>The analyser reads \<open>IsExported\<close> and \<open>docNew\<close> only, the import list apart.\<close>

lemma analyseFunctionDecl_lib:
  "analyseFunctionDecl (lib\<lparr>rangeKeys := r\<rparr>) fn = analyseFunctionDecl lib fn"
  by (simp add: analyseFunctionDecl_def)

lemma analyseTypeDecl_lib:
  "analyseTypeDecl (lib\<lparr>rangeKeys := r\<rparr>) typ = analyseTypeDecl lib typ"
  by (simp add: analyseTypeDecl_def)

lemma constNames_lib:
  "constNames (lib\<lparr>rangeKeys := r\<rparr>) c vs i names acc = constNames lib c vs i names acc"
  by (induction names arbitrary: i acc) (simp_all add: Let_def)

lemma constSpecs_lib:
  "constSpecs (lib\<lparr>rangeKeys := r\<rparr>) c specs acc = constSpecs lib c specs acc"
  by (induction specs arbitrary: acc) (simp_all add: constNames_lib split: Spec.splits)

lemma varNames_lib:
  "varNames (lib\<lparr>rangeKeys := r\<rparr>) v vs names acc = varNames lib v vs names acc"
  by (induction names arbitrary: acc) (simp_all add: Let_def)

lemma varSpecs_lib:
  "varSpecs (lib\<lparr>rangeKeys := r\<rparr>) v specs acc = varSpecs lib v specs acc"
  by (induction specs arbitrary: acc) (simp_all add: varNames_lib split: Spec.splits)

lemma modelOf_order:
  assumes "\<And>ks. mset (rangeKeys lib ks) = mset ks" and "\<And>ks. mset (order' ks) = mset ks"
  shows "(modelOf (lib\<lparr>rangeKeys := order'\<rparr>) dir pkg)\<lparr>Imports := Imports (modelOf lib dir pkg)\<rparr>
           = modelOf lib dir pkg \<and>
         mset (Imports (modelOf (lib\<lparr>rangeKeys := order'\<rparr>) dir pkg)) =
           mset (Imports (modelOf lib dir pkg))"
proof -
  let ?lib' = "lib\<lparr>rangeKeys := order'\<rparr>"
  have m: "methodInfoOf ?lib' = methodInfoOf lib"
    by (intro ext) (simp add: methodInfoOf_def analyseFunctionDecl_lib)
  have c: "analyseConstantDecl ?lib' = analyseConstantDecl lib"
    by (intro ext) (simp add: analyseConstantDecl_def constSpecs_lib)
  have v: "analyseVariableDecl ?lib' = analyseVariableDecl lib"
    by (intro ext) (simp add: analyseVariableDecl_def varSpecs_lib)
  have f: "analyseFunctionDecl ?lib' = analyseFunctionDecl lib"
    by (intro ext) (rule analyseFunctionDecl_lib)
  have t: "analyseTypeDecl ?lib' = analyseTypeDecl lib"
    by (intro ext) (rule analyseTypeDecl_lib)
  show ?thesis
    by (simp add: modelOf_def m c v f t extractImports_def appendImports_eq assms)
qed

lemma AnalysePackage_stack:
  "AnalysePackage exampleLibrary ''./stack'' stackParsed = Inr stackInfo"
  by code_simp

section \<open>The enhancement stage keeps what is above the thresholds\<close>

lemma keeps_refl: "keeps pkg pkg"
  by (simp add: keeps_def)

lemma keeps_trans: "keeps a b \<Longrightarrow> keeps b c \<Longrightarrow> keeps a c"
  unfolding keeps_def by (intro conjI allI impI) (elim conjE, simp)+

lemma keeps_fold:
  assumes "\<And>i p. keeps p (f i p)"
  shows "keeps pkg (fold f is pkg)"
proof (induction "is" arbitrary: pkg)
  case Nil
  show ?case by (simp add: keeps_refl)
next
  case (Cons i "is")
  have "keeps pkg (f i pkg)" by (rule assms)
  moreover have "keeps (f i pkg) (fold f is (f i pkg))" by (rule Cons.IH)
  ultimately show ?case by (simp add: keeps_trans)
qed

lemma nth_update_cases: "xs[i := x] ! j = (if i = j \<and> i < length xs then x else xs ! j)"
  by (cases "i < length xs") (auto simp: nth_list_update list_update_beyond)

lemma keeps_enhanceFunctionAt: "keeps pkg (enhanceFunctionAt svc i pkg)"
  by (auto simp: keeps_def enhanceFunctionAt_def nth_update_cases split: sum.splits)

lemma keeps_enhanceTypeAt: "keeps pkg (enhanceTypeAt svc i pkg)"
  by (auto simp: keeps_def enhanceTypeAt_def nth_update_cases split: sum.splits)

lemma keeps_exampleFunctionAt: "keeps pkg (exampleFunctionAt svc i pkg)"
  by (auto simp: keeps_def exampleFunctionAt_def nth_update_cases split: sum.splits)

lemma keeps_enhanceDescriptions: "keeps pkg (enhanceDescriptions svc pkg)"
proof -
  define p1 where "p1 = (if length (Description pkg) < 50 then
                   (case enhancePackageDescription svc pkg of
                      Inr enhanced \<Rightarrow>
                        (if enhanced \<noteq> [] then pkg\<lparr>Description := enhanced\<rparr> else pkg)
                    | Inl err \<Rightarrow> pkg)
                 else pkg)"
  define p2 where "p2 = fold (enhanceFunctionAt svc) [0..<length (Functions p1)] p1"
  have "keeps pkg p1" by (auto simp: p1_def keeps_def split: sum.splits)
  moreover have "keeps p1 p2"
    unfolding p2_def by (rule keeps_fold) (rule keeps_enhanceFunctionAt)
  moreover have "keeps p2 (fold (enhanceTypeAt svc) [0..<length (Types p2)] p2)"
    by (rule keeps_fold) (rule keeps_enhanceTypeAt)
  moreover have "enhanceDescriptions svc pkg =
                   fold (enhanceTypeAt svc) [0..<length (Types p2)] p2"
    by (simp add: enhanceDescriptions_def Let_def p1_def p2_def)
  ultimately show ?thesis by (metis keeps_trans)
qed

lemma keeps_generateExamples: "keeps pkg (generateExamples svc pkg)"
proof -
  define p1 where "p1 = (if length (Examples pkg) = 0 then
                   (case generatePackageExample svc pkg of
                      Inr example \<Rightarrow>
                        (if example \<noteq> []
                         then pkg\<lparr>Examples := Examples pkg @
                                [\<lparr>ex_Name = ''Basic Usage'', ex_Code = example,
                                  ex_Doc = ''Basic usage example''\<rparr>]\<rparr>
                         else pkg)
                    | Inl err \<Rightarrow> pkg)
                 else pkg)"
  have "keeps pkg p1" by (auto simp: p1_def keeps_def split: sum.splits)
  moreover have "keeps p1 (fold (exampleFunctionAt svc) [0..<length (Functions p1)] p1)"
    by (rule keeps_fold) (rule keeps_exampleFunctionAt)
  moreover have "generateExamples svc pkg =
                   fold (exampleFunctionAt svc) [0..<length (Functions p1)] p1"
    by (simp add: generateExamples_def Let_def p1_def)
  ultimately show ?thesis by (metis keeps_trans)
qed

lemma keeps_GeneratePackageDoc: "keeps pkg (snd (GeneratePackageDoc svc pkg config))"
proof -
  have "keeps pkg (enhanceDescriptions svc pkg)" by (rule keeps_enhanceDescriptions)
  moreover have "keeps (enhanceDescriptions svc pkg)
                   (generateExamples svc (enhanceDescriptions svc pkg))"
    by (rule keeps_generateExamples)
  ultimately show ?thesis
    by (auto simp: GeneratePackageDoc_def Let_def split: sum.splits intro: keeps_trans)
qed

section \<open>A line read inside an example\<close>

text \<open>
  A line read in the state \<open>InExample\<close> that starts no new example, holds no fence, is not
  a blank line after a non-empty buffer, and does not start with four spaces followed by a
  tab: the code handles it as the specification words the step.
\<close>

lemma scanLines_inExample_step:
  assumes "\<not> HasPrefix (TrimSpace line) ''Example:''"
    and "\<not> HasPrefix (TrimSpace line) ''Usage:''"
    and "\<not> Contains (TrimSpace line) ''```''"
    and "TrimSpace line \<noteq> [] \<or> cur = []"
    and "\<not> HasPrefix line (''    '' @ [CHR 0x09])"
  shows "scanLines (line # lines) True cur exs =
           scanLines lines True (claimedInExample line cur) exs"
proof -
  have go: "\<not> Contains (TrimSpace line) ''```go''"
    using assms(3) Contains_append [of "TrimSpace line" "''```''" "''go''"] by auto
  have stay: "\<not> (TrimSpace line = [] \<and> 0 < length cur)"
    using assms(4) by auto
  have step: "scanLines (line # lines) True cur exs =
      (if HasPrefix line ''    '' \<or> HasPrefix line [CHR 0x09]
       then scanLines lines True
              (cur @ TrimPrefix (TrimPrefix line ''    '') [CHR 0x09] @ [CHR 0x0A]) exs
       else scanLines lines True cur exs)"
    using assms(1,2,3) go stay by (auto simp: Let_def)
  show ?thesis
  proof (cases "HasPrefix line ''    ''")
    case True
    then have nt: "\<not> HasPrefix line [CHR 0x09]"
      by (cases line) (auto simp: HasPrefix_def)
    have "\<not> HasPrefix (drop (length ''    '') line) [CHR 0x09]"
      using HasPrefix_drop [OF True] assms(5) by blast
    then have "\<not> HasPrefix (TrimPrefix line ''    '') [CHR 0x09]"
      using True unfolding TrimPrefix_def by simp
    then have "TrimPrefix (TrimPrefix line ''    '') [CHR 0x09] = TrimPrefix line ''    ''"
      by (simp add: TrimPrefix_def)
    then show ?thesis
      unfolding step claimedInExample_def stripOneLayer_def using True nt by simp
  next
    case False
    then have "TrimPrefix (TrimPrefix line ''    '') [CHR 0x09] = TrimPrefix line [CHR 0x09]"
      by (simp add: TrimPrefix_def)
    then show ?thesis
      unfolding step claimedInExample_def stripOneLayer_def
      using False by (simp add: TrimPrefix_def)
  qed
qed

text \<open>Below the thresholds the stage does write: the model of \<open>stack\<close> after the stage.\<close>

lemma GeneratePackageDoc_stack:
  "Description (snd (GeneratePackageDoc exampleService stackInfo exampleConfig)) =
     ''Generated for package stack.'' \<and>
   map fn_Description (Functions (snd (GeneratePackageDoc exampleService stackInfo exampleConfig))) =
     [''Generated for function Max.'', fn_Description (Functions stackInfo ! 1)] \<and>
   map fn_Examples (Functions (snd (GeneratePackageDoc exampleService stackInfo exampleConfig))) =
     [[''Generated for example Max.''], fn_Examples (Functions stackInfo ! 1)] \<and>
   map ty_Description (Types (snd (GeneratePackageDoc exampleService stackInfo exampleConfig))) =
     [''Generated for type Stack.''] \<and>
   map ex_Code (Examples (snd (GeneratePackageDoc exampleService stackInfo exampleConfig))) =
     [''Generated for example stack.'']"
  by code_simp

section \<open>The claims\<close>

subsection \<open>C1: the text of a signature\<close>

text \<open>
  Claim C1 says that \<open>getFunctionSignature\<close> returns
  \<open><keyword> [(<receiver>)] <name>(<params>)\<close> and the return clause, the parameter list
  directly after the name, and the return clause a parenthesized list unless exactly one
  unnamed return value is declared, also when there is none. For the method
  \<open>func (s *Stack) Push(x int)\<close> the code returns \<open>func (s *Stack) Push (x int)\<close>: a space
  stands between the name and the parameter list, and no return clause follows, where the
  claimed text is \<open>func (s *Stack) Push(x int) ()\<close>.
\<close>

theorem getFunctionSignature_claimed_format_counterexample:
  "getFunctionSignature pushDecl = Inr ''func (s *Stack) Push (x int)'' \<and>
   claimedSignature pushDecl pushType = ''func (s *Stack) Push(x int) ()'' \<and>
   getFunctionSignature pushDecl \<noteq> Inr (claimedSignature pushDecl pushType)"
  by (simp add: getFunctionSignature_def claimedSignature_def pushDecl_def pushType_def
        fieldListToString_def)

text \<open>
  Claim C1 as the code has it: for a declaration with a type node the signature is the
  keyword, the parenthesized receiver when there is one, the name, the parenthesized
  parameter list and the return clause, each separated from the next by one space. The
  return clause is there only when the declaration has a result list; it is the bare type
  of a result list of exactly one field without names, and the parenthesized comma-joined
  list otherwise (an empty list, one named value, several values).
\<close>

theorem getFunctionSignature_format:
  assumes "fd_Type decl = Some typ"
  shows "getFunctionSignature decl =
     Inr (''func '' @
          (case fd_Recv decl of
             None \<Rightarrow> []
           | Some recv \<Rightarrow> ''('' @ fieldListToString (Some recv) @ '') '') @
          fd_Name decl @ '' ('' @ fieldListToString (ft_Params typ) @ '')'' @
          (case ft_Results typ of
             None \<Rightarrow> []
           | Some rs \<Rightarrow>
               '' '' @ (if length rs = 1 \<and> Names (hd rs) = [] then typeToString (Type (hd rs))
                        else ''('' @ fieldListToString (Some rs) @ '')'')))"
  using assms
  by (auto simp: getFunctionSignature_def Let_def fieldListToString_def hd_conv_nth
        length_Suc_conv split: option.splits)

text \<open>The amended claim C1 on the method \<open>Push\<close> and on the function \<open>Max\<close>.\<close>

theorem getFunctionSignature_format_witness:
  "fd_Type pushDecl = Some pushType \<and>
   getFunctionSignature pushDecl = Inr ''func (s *Stack) Push (x int)'' \<and>
   fd_Type maxDecl = Some maxType \<and>
   getFunctionSignature maxDecl = Inr ''func Max (a int, b int) int''"
  using getFunctionSignature_format [of pushDecl pushType]
        getFunctionSignature_format [of maxDecl maxType]
  by (simp add: pushDecl_def pushType_def maxDecl_def maxType_def fieldListToString_def Let_def)

subsection \<open>C2: one return entry per declared return value\<close>

text \<open>
  Claim C2 says that return values are expanded per name as parameters are, so that a
  group of \<open>n\<close> names gives \<open>n\<close> entries. For the result list \<open>(n, m int)\<close> the code gives
  one \<open>ReturnInfo\<close>, while \<open>extractParameters\<close> gives two entries for the same list.
\<close>

theorem extractReturns_grouped_names:
  "extractReturns (Some [Field [''n'', ''m''] (Ident ''int'') None]) =
     [\<lparr>re_Type = ''int'', re_Description = []\<rparr>] \<and>
   extractParameters (Some [Field [''n'', ''m''] (Ident ''int'') None]) =
     [\<lparr>pa_Name = ''n'', pa_Type = ''int''\<rparr>, \<lparr>pa_Name = ''m'', pa_Type = ''int''\<rparr>]"
  by (simp add: extractReturns_def extractParameters_def Let_def)

subsection \<open>C3: the value of a constant is the one at its own position\<close>

text \<open>
  Claim C3: in a constant group the entry for the name at position \<open>i\<close> has the text of
  the value expression at position \<open>i\<close> when there is one, and the empty value otherwise.
  The group may stand anywhere in its declaration; \<open>k\<close> is the place of the entry in the
  result, after the entries of the specs before the group.
\<close>

theorem analyseConstantDecl_value_by_position:
  assumes "gd_Specs (dv_Decl c) = pre @ ValueSpecNode vs # post"
    and "i < length (vs_Names vs)"
    and "k = length (constSpecs lib c pre []) + i"
  shows "k < length (analyseConstantDecl lib c) \<and>
         co_Name (analyseConstantDecl lib c ! k) = vs_Names vs ! i \<and>
         co_Value (analyseConstantDecl lib c ! k) =
           (if i < length (vs_Values vs)
            then (case vs_Values vs ! i of Some e \<Rightarrow> exprToString e | None \<Rightarrow> [])
            else [])"
proof -
  let ?pre = "constSpecs lib c pre []"
  let ?grp = "specEntries lib c (ValueSpecNode vs)"
  let ?post = "concat (map (specEntries lib c) post)"
  have eq: "analyseConstantDecl lib c = ?pre @ ?grp @ ?post"
    by (simp add: analyseConstantDecl_def assms(1) constSpecs_eq)
  have len: "length ?grp = length (vs_Names vs)"
    by (simp add: specEntries_def)
  have "?grp ! i = constEntry lib c vs i (vs_Names vs ! i)"
    using assms(2) by (simp add: specEntries_def nth_enumerate_eq)
  then have "(?pre @ ?grp @ ?post) ! k = constEntry lib c vs i (vs_Names vs ! i)"
    using assms(2,3) len by (simp add: nth_append)
  moreover have "k < length (?pre @ ?grp @ ?post)"
    using assms(2,3) len by simp
  ultimately show ?thesis
    by (simp add: eq constEntry_def)
qed

text \<open>
  Claim C3 on the two groups of the specification: \<open>A, B = 1\<close> gives \<open>A\<close> the value \<open>1\<close>
  and \<open>B\<close> none; \<open>A, B = 1, 2\<close> gives \<open>1\<close> and \<open>2\<close>.
\<close>

theorem analyseConstantDecl_value_by_position_witness:
  "co_Value (analyseConstantDecl exampleLibrary limitsGroup ! 0) = ''1'' \<and>
   co_Value (analyseConstantDecl exampleLibrary limitsGroup ! 1) = [] \<and>
   co_Value (analyseConstantDecl exampleLibrary pairGroup ! 0) = ''1'' \<and>
   co_Value (analyseConstantDecl exampleLibrary pairGroup ! 1) = ''2''"
  using analyseConstantDecl_value_by_position
          [of limitsGroup "[]" limitsSpec "[]" 0 0 exampleLibrary]
        analyseConstantDecl_value_by_position
          [of limitsGroup "[]" limitsSpec "[]" 1 1 exampleLibrary]
        analyseConstantDecl_value_by_position
          [of pairGroup "[]" pairSpec "[]" 0 0 exampleLibrary]
        analyseConstantDecl_value_by_position
          [of pairGroup "[]" pairSpec "[]" 1 1 exampleLibrary]
  by (simp add: limitsGroup_def limitsSpec_def pairGroup_def pairSpec_def)

subsection \<open>C4: one layer of indentation\<close>

text \<open>
  Claim C4 says that a line of an example is appended with exactly one layer of
  indentation stripped, a tab or four spaces, and that no line loses more than one layer.
  The code asks for one prefix or the other and then removes the four spaces and, from
  what remains, the tab. In the comment \<open>Usage:\<close>, (four spaces)(tab)\<open>x.Do()\<close>, (empty
  line), the example is \<open>x.Do()\<close> with neither the spaces nor the tab; read in the state
  \<open>InExample\<close> with an empty buffer, the line gives the same, where the step as the claim
  words it keeps the tab.
\<close>

theorem extractExamples_mixed_indentation:
  "extractExamples
     (''Usage:'' @ [CHR 0x0A] @ ''    '' @ [CHR 0x09] @ ''x.Do()'' @ [CHR 0x0A, CHR 0x0A]) =
     [''x.Do()'' @ [CHR 0x0A]] \<and>
   scanLines [''    '' @ [CHR 0x09] @ ''x.Do()'', []] True [] [] =
     [''x.Do()'' @ [CHR 0x0A]] \<and>
   scanLines [[]] True (claimedInExample (''    '' @ [CHR 0x09] @ ''x.Do()'') []) [] =
     [[CHR 0x09] @ ''x.Do()'' @ [CHR 0x0A]]"
  by code_simp

subsection \<open>C5: the thresholds of the enhancement stage\<close>

text \<open>
  Claim C5: the enhancement stage leaves a package description of 50 characters or more
  as it is, and a function or type description of 20 characters or more; it adds nothing
  to a list of examples that is not empty, for the package and for every function. No
  function or type is added or removed. This holds for \<open>enhanceDescriptions\<close>, for
  \<open>generateExamples\<close>, and for the two in sequence as \<open>GeneratePackageDoc\<close> runs them,
  whatever the language service answers.
\<close>

theorem enhancement_keeps_above_threshold:
  assumes "pkg' = enhanceDescriptions svc pkg \<or> pkg' = generateExamples svc pkg \<or>
           pkg' = snd (GeneratePackageDoc svc pkg config)"
  shows "(50 \<le> length (Description pkg) \<longrightarrow> Description pkg' = Description pkg) \<and>
     (Examples pkg \<noteq> [] \<longrightarrow> Examples pkg' = Examples pkg) \<and>
     length (Functions pkg') = length (Functions pkg) \<and>
     length (Types pkg') = length (Types pkg) \<and>
     (\<forall>i < length (Functions pkg).
        (20 \<le> length (fn_Description (Functions pkg ! i)) \<longrightarrow>
           fn_Description (Functions pkg' ! i) = fn_Description (Functions pkg ! i)) \<and>
        (fn_Examples (Functions pkg ! i) \<noteq> [] \<longrightarrow>
           fn_Examples (Functions pkg' ! i) = fn_Examples (Functions pkg ! i))) \<and>
     (\<forall>i < length (Types pkg).
        20 \<le> length (ty_Description (Types pkg ! i)) \<longrightarrow>
          ty_Description (Types pkg' ! i) = ty_Description (Types pkg ! i))"
proof -
  have "keeps pkg pkg'"
    using assms keeps_enhanceDescriptions [of pkg svc] keeps_generateExamples [of pkg svc]
          keeps_GeneratePackageDoc [of pkg svc config]
    by blast
  then show ?thesis
    unfolding keeps_def by simp
qed

text \<open>
  Claim C5 on a package whose descriptions are above the thresholds and whose lists of
  examples are not empty, with a language service that answers every call.
\<close>

theorem enhancement_keeps_above_threshold_witness:
  "50 \<le> length (Description documentedPackage) \<and>
   Description (snd (GeneratePackageDoc exampleService documentedPackage exampleConfig)) =
     Description documentedPackage \<and>
   Examples documentedPackage \<noteq> [] \<and>
   Examples (snd (GeneratePackageDoc exampleService documentedPackage exampleConfig)) =
     Examples documentedPackage \<and>
   20 \<le> length (fn_Description (Functions documentedPackage ! 0)) \<and>
   fn_Description
     (Functions (snd (GeneratePackageDoc exampleService documentedPackage exampleConfig)) ! 0) =
     fn_Description (Functions documentedPackage ! 0) \<and>
   fn_Examples (Functions documentedPackage ! 0) \<noteq> [] \<and>
   fn_Examples
     (Functions (snd (GeneratePackageDoc exampleService documentedPackage exampleConfig)) ! 0) =
     fn_Examples (Functions documentedPackage ! 0) \<and>
   20 \<le> length (ty_Description (Types documentedPackage ! 0)) \<and>
   ty_Description
     (Types (snd (GeneratePackageDoc exampleService documentedPackage exampleConfig)) ! 0) =
     ty_Description (Types documentedPackage ! 0)"
proof -
  have d: "50 \<le> length (Description documentedPackage)"
    and e: "Examples documentedPackage \<noteq> []"
    and f: "0 < length (Functions documentedPackage)"
    and fd: "20 \<le> length (fn_Description (Functions documentedPackage ! 0))"
    and fe: "fn_Examples (Functions documentedPackage ! 0) \<noteq> []"
    and t: "0 < length (Types documentedPackage)"
    and td: "20 \<le> length (ty_Description (Types documentedPackage ! 0))"
    by (simp_all add: documentedPackage_def stackInfo_def)
  from enhancement_keeps_above_threshold
         [of "snd (GeneratePackageDoc exampleService documentedPackage exampleConfig)"
             exampleService documentedPackage exampleConfig]
       d e f fd fe t td
  show ?thesis by simp
qed

subsection \<open>C6: every listed method has its function entry\<close>

text \<open>
  Claim C6: in a model that \<open>AnalysePackage\<close> returns, for every type \<open>T\<close> and every
  method name \<open>m\<close> in the method list of \<open>T\<close>, the function list has an entry with name
  \<open>m\<close>, the method flag set, and the receiver equal to the name of \<open>T\<close>.
\<close>

theorem AnalysePackage_methods_listed:
  assumes "AnalysePackage lib dir parsed = Inr info"
    and "T \<in> set (Types info)" and "m \<in> set (ty_Methods T)"
  shows "\<exists>f \<in> set (Functions info).
           fn_Name f = m \<and> fn_IsMethod f \<and> fn_Receiver f = ty_Name T"
proof -
  from assms(1) obtain pkg where info: "info = modelOf lib dir pkg"
    by (rule AnalysePackage_Inr)
  from assms(2) obtain t where t: "t \<in> set (dp_Types (docNew lib pkg))"
    and T: "T = analyseTypeDecl lib t"
    by (auto simp: info modelOf_def)
  from assms(3) T obtain mth where me: "mth \<in> set (dt_Methods t)"
    and m: "m = df_Name mth"
    by (auto simp: analyseTypeDecl_Methods)
  let ?f = "methodInfoOf lib t mth"
  have "?f \<in> set (Functions info)"
    using t me by (auto simp: info modelOf_def)
  moreover have "fn_Name ?f = m \<and> fn_IsMethod ?f \<and> fn_Receiver ?f = ty_Name T"
    by (simp add: methodInfoOf_def analyseFunctionDecl_Name m T analyseTypeDecl_Name)
  ultimately show ?thesis by blast
qed

text \<open>Claim C6 on the package \<open>stack\<close>: the type \<open>Stack\<close> lists \<open>Push\<close>.\<close>

theorem AnalysePackage_methods_listed_witness:
  "AnalysePackage exampleLibrary ''./stack'' stackParsed = Inr stackInfo \<and>
   Types stackInfo ! 0 \<in> set (Types stackInfo) \<and>
   ''Push'' \<in> set (ty_Methods (Types stackInfo ! 0)) \<and>
   (\<exists>f \<in> set (Functions stackInfo).
      fn_Name f = ''Push'' \<and> fn_IsMethod f \<and> fn_Receiver f = ''Stack'')"
proof -
  have t: "Types stackInfo ! 0 \<in> set (Types stackInfo)"
    and m: "''Push'' \<in> set (ty_Methods (Types stackInfo ! 0))"
    and n: "ty_Name (Types stackInfo ! 0) = ''Stack''"
    by (simp_all add: stackInfo_def)
  from AnalysePackage_methods_listed [OF AnalysePackage_stack t m]
  have "\<exists>f \<in> set (Functions stackInfo).
          fn_Name f = ''Push'' \<and> fn_IsMethod f \<and> fn_Receiver f = ''Stack''"
    by (simp only: n)
  with AnalysePackage_stack t m show ?thesis by blast
qed

subsection \<open>C7: which package is selected\<close>

text \<open>
  Claim C7 says that the selection is deterministic: two runs on one parse result select
  the same package and build the same model. The parse result is a Go map and the loop
  takes the first entry without the suffix that its \<open>range\<close> statement visits. For the map
  with the packages \<open>stack\<close> and \<open>queue\<close>, a run that visits \<open>stack\<close> first and a run that
  visits \<open>queue\<close> first return different models. And on one selected package, two runs
  that visit the import set in different orders return the imports in different orders.
\<close>

theorem AnalysePackage_selection_counterexample:
  "mset [(''stack'', stackPackage), (''queue'', queuePackage)] =
     mset [(''queue'', queuePackage), (''stack'', stackPackage)] \<and>
   AnalysePackage exampleLibrary ''./stack''
     \<lparr>pd_pkgs = [(''stack'', stackPackage), (''queue'', queuePackage)], pd_err = None\<rparr> \<noteq>
   AnalysePackage exampleLibrary ''./stack''
     \<lparr>pd_pkgs = [(''queue'', queuePackage), (''stack'', stackPackage)], pd_err = None\<rparr> \<and>
   AnalysePackage (exampleLibrary\<lparr>rangeKeys := rev\<rparr>) ''./stack'' stackParsed \<noteq>
   AnalysePackage exampleLibrary ''./stack'' stackParsed"
proof -
  have "mset [(''stack'', stackPackage), (''queue'', queuePackage)] =
        mset [(''queue'', queuePackage), (''stack'', stackPackage)]"
    by simp
  moreover have "AnalysePackage exampleLibrary ''./stack''
       \<lparr>pd_pkgs = [(''stack'', stackPackage), (''queue'', queuePackage)], pd_err = None\<rparr> \<noteq>
     AnalysePackage exampleLibrary ''./stack''
       \<lparr>pd_pkgs = [(''queue'', queuePackage), (''stack'', stackPackage)], pd_err = None\<rparr>"
    by (simp add: AnalysePackage_eq HasSuffix_def modelOf_def exampleLibrary_def
          stackPackage_def queuePackage_def)
  moreover have "AnalysePackage (exampleLibrary\<lparr>rangeKeys := rev\<rparr>) ''./stack'' stackParsed \<noteq>
     AnalysePackage exampleLibrary ''./stack'' stackParsed"
    by (simp add: AnalysePackage_eq HasSuffix_def modelOf_def exampleLibrary_def
          stackParsed_def stackPackage_def extractImports_def appendImports_eq Trim_def)
  ultimately show ?thesis by blast
qed

text \<open>
  Claim C7 as the code has it. \<open>AnalysePackage\<close> selects the first package without the
  suffix \<open>_test\<close> in the order in which the run visits the parse result, whatever the
  number of such packages: its result is the one for that entry alone. When at most one
  package of the parse result is without the suffix, every visiting order selects the same
  package and builds the same model; two runs that also visit the import set in different
  orders agree on the error, or on every field of the model up to the order of \<open>Imports\<close>.
\<close>

theorem AnalysePackage_selection:
  "selectPackage (pd_pkgs parsed) =
     map_option snd (find (\<lambda>entry. \<not> HasSuffix (fst entry) ''_test'') (pd_pkgs parsed)) \<and>
   AnalysePackage lib dir parsed =
     AnalysePackage lib dir
       (parsed\<lparr>pd_pkgs :=
          (case find (\<lambda>entry. \<not> HasSuffix (fst entry) ''_test'') (pd_pkgs parsed) of
             None \<Rightarrow> []
           | Some entry \<Rightarrow> [entry])\<rparr>) \<and>
   (mset (pd_pkgs parsed') = mset (pd_pkgs parsed) \<and> pd_err parsed' = pd_err parsed \<and>
    length (filter (\<lambda>entry. \<not> HasSuffix (fst entry) ''_test'') (pd_pkgs parsed)) \<le> 1 \<longrightarrow>
      selectPackage (pd_pkgs parsed') = selectPackage (pd_pkgs parsed) \<and>
      AnalysePackage lib dir parsed' = AnalysePackage lib dir parsed \<and>
      ((\<forall>ks. mset (rangeKeys lib ks) = mset ks) \<and> (\<forall>ks. mset (order' ks) = mset ks) \<longrightarrow>
         (case (AnalysePackage (lib\<lparr>rangeKeys := order'\<rparr>) dir parsed',
                AnalysePackage lib dir parsed) of
            (Inl e', Inl e) \<Rightarrow> e' = e
          | (Inr info', Inr info) \<Rightarrow>
              info'\<lparr>Imports := Imports info\<rparr> = info \<and>
              mset (Imports info') = mset (Imports info)
          | _ \<Rightarrow> False)))"
proof -
  let ?P = "\<lambda>entry :: string \<times> ast_Package. \<not> HasSuffix (fst entry) ''_test''"
  let ?one = "case find ?P (pd_pkgs parsed) of None \<Rightarrow> [] | Some entry \<Rightarrow> [entry]"
  have first: "selectPackage (pd_pkgs parsed) = map_option snd (find ?P (pd_pkgs parsed))"
    by (rule selectPackage_find)
  have "selectPackage ?one = selectPackage (pd_pkgs parsed)"
  proof (cases "find ?P (pd_pkgs parsed)")
    case None
    then show ?thesis by (simp add: first)
  next
    case (Some entry)
    then have "?P entry" by (auto simp: find_Some_iff)
    with Some show ?thesis by (cases entry) (simp add: first)
  qed
  then have one: "selectPackage (pd_pkgs (parsed\<lparr>pd_pkgs := ?one\<rparr>)) =
                    selectPackage (pd_pkgs parsed)"
    by simp
  have err: "pd_err (parsed\<lparr>pd_pkgs := ?one\<rparr>) = pd_err parsed"
    by simp
  have alone: "AnalysePackage lib dir parsed =
                 AnalysePackage lib dir (parsed\<lparr>pd_pkgs := ?one\<rparr>)"
    unfolding AnalysePackage_eq one err by (rule refl)
  have perm: "selectPackage (pd_pkgs parsed') = selectPackage (pd_pkgs parsed) \<and>
      AnalysePackage lib dir parsed' = AnalysePackage lib dir parsed \<and>
      ((\<forall>ks. mset (rangeKeys lib ks) = mset ks) \<and> (\<forall>ks. mset (order' ks) = mset ks) \<longrightarrow>
         (case (AnalysePackage (lib\<lparr>rangeKeys := order'\<rparr>) dir parsed',
                AnalysePackage lib dir parsed) of
            (Inl e', Inl e) \<Rightarrow> e' = e
          | (Inr info', Inr info) \<Rightarrow>
              info'\<lparr>Imports := Imports info\<rparr> = info \<and>
              mset (Imports info') = mset (Imports info)
          | _ \<Rightarrow> False))"
    if p: "mset (pd_pkgs parsed') = mset (pd_pkgs parsed)"
      and e: "pd_err parsed' = pd_err parsed"
      and l: "length (filter ?P (pd_pkgs parsed)) \<le> 1"
  proof -
    have "filter ?P (pd_pkgs parsed') = filter ?P (pd_pkgs parsed)"
      using p l by (rule filter_perm_short)
    then have sel: "selectPackage (pd_pkgs parsed') = selectPackage (pd_pkgs parsed)"
      by (simp add: selectPackage_find find_filter)
    have same: "AnalysePackage lib dir parsed' = AnalysePackage lib dir parsed"
      unfolding AnalysePackage_eq sel e by (rule refl)
    have up: "(case (AnalysePackage (lib\<lparr>rangeKeys := order'\<rparr>) dir parsed',
                     AnalysePackage lib dir parsed) of
              (Inl e', Inl e) \<Rightarrow> e' = e
            | (Inr info', Inr info) \<Rightarrow>
                info'\<lparr>Imports := Imports info\<rparr> = info \<and>
                mset (Imports info') = mset (Imports info)
            | _ \<Rightarrow> False)"
      if k: "\<forall>ks. mset (rangeKeys lib ks) = mset ks" and r: "\<forall>ks. mset (order' ks) = mset ks"
      unfolding AnalysePackage_eq sel e
      using modelOf_order [of lib order' dir] k r
      by (simp split: option.splits)
    from sel same up show ?thesis by blast
  qed
  from first alone perm show ?thesis by blast
qed

text \<open>
  The amended claim C7. On the packages \<open>stack\<close> and \<open>queue\<close>, visited in this order, the
  first one is selected. On the packages \<open>stack_test\<close> and \<open>stack\<close>, visited in either
  order, the package \<open>stack\<close> is selected and the model is the same.
\<close>

theorem AnalysePackage_selection_witness:
  "selectPackage [(''stack'', stackPackage), (''queue'', queuePackage)] = Some stackPackage \<and>
   selectPackage [(''queue'', queuePackage), (''stack'', stackPackage)] = Some queuePackage \<and>
   mset [(''stack'', stackPackage), (''stack_test'', stackTestPackage)] =
     mset (pd_pkgs stackParsed) \<and>
   length (filter (\<lambda>entry. \<not> HasSuffix (fst entry) ''_test'') (pd_pkgs stackParsed)) \<le> 1 \<and>
   selectPackage [(''stack'', stackPackage), (''stack_test'', stackTestPackage)] =
     selectPackage (pd_pkgs stackParsed) \<and>
   AnalysePackage exampleLibrary ''./stack''
     \<lparr>pd_pkgs = [(''stack'', stackPackage), (''stack_test'', stackTestPackage)],
      pd_err = None\<rparr> = Inr stackInfo"
proof -
  let ?swapped = "\<lparr>pd_pkgs = [(''stack'', stackPackage), (''stack_test'', stackTestPackage)],
                   pd_err = None\<rparr>"
  let ?P = "\<lambda>entry :: string \<times> ast_Package. \<not> HasSuffix (fst entry) ''_test''"
  have f1: "find ?P [(''stack'', stackPackage), (''queue'', queuePackage)] =
              Some (''stack'', stackPackage)"
    and f2: "find ?P [(''queue'', queuePackage), (''stack'', stackPackage)] =
              Some (''queue'', queuePackage)"
    by (simp_all add: HasSuffix_def)
  have s1: "selectPackage [(''stack'', stackPackage), (''queue'', queuePackage)] =
              Some stackPackage"
  proof -
    have "selectPackage [(''stack'', stackPackage), (''queue'', queuePackage)] =
            map_option snd (find ?P [(''stack'', stackPackage), (''queue'', queuePackage)])"
      using AnalysePackage_selection
              [of "\<lparr>pd_pkgs = [(''stack'', stackPackage), (''queue'', queuePackage)],
                    pd_err = None\<rparr>", THEN conjunct1]
      by (simp only: ParseDirResult.select_convs)
    then show ?thesis
      unfolding f1 by simp
  qed
  have s2: "selectPackage [(''queue'', queuePackage), (''stack'', stackPackage)] =
              Some queuePackage"
  proof -
    have "selectPackage [(''queue'', queuePackage), (''stack'', stackPackage)] =
            map_option snd (find ?P [(''queue'', queuePackage), (''stack'', stackPackage)])"
      using AnalysePackage_selection
              [of "\<lparr>pd_pkgs = [(''queue'', queuePackage), (''stack'', stackPackage)],
                    pd_err = None\<rparr>", THEN conjunct1]
      by (simp only: ParseDirResult.select_convs)
    then show ?thesis
      unfolding f2 by simp
  qed
  have p: "mset (pd_pkgs ?swapped) = mset (pd_pkgs stackParsed)"
    by (simp add: stackParsed_def)
  have e: "pd_err ?swapped = pd_err stackParsed"
    by (simp add: stackParsed_def)
  have l: "length (filter ?P (pd_pkgs stackParsed)) \<le> 1"
    by (simp add: stackParsed_def HasSuffix_def)
  have k: "\<forall>ks. mset (rangeKeys exampleLibrary ks) = mset ks"
    by (simp add: exampleLibrary_def)
  have r: "\<forall>ks :: string list. mset (rev ks) = mset ks"
    by simp
  from AnalysePackage_selection [of stackParsed exampleLibrary "''./stack''" ?swapped rev]
       p e l k r
  have "selectPackage (pd_pkgs ?swapped) = selectPackage (pd_pkgs stackParsed) \<and>
        AnalysePackage exampleLibrary ''./stack'' ?swapped =
          AnalysePackage exampleLibrary ''./stack'' stackParsed"
    by blast
  with AnalysePackage_stack s1 s2 p l show ?thesis by simp
qed

subsection \<open>C8: no package without the test suffix\<close>

text \<open>
  Claim C8: when the parse succeeds and every package it yields has a name ending in
  \<open>_test\<close>, or it yields no package, \<open>AnalysePackage\<close> returns the error
  \<open>NoPackageFound\<close> and no model.
\<close>

theorem AnalysePackage_no_package:
  assumes "pd_err parsed = None"
    and "\<forall>(name, p) \<in> set (pd_pkgs parsed). HasSuffix name ''_test''"
  shows "AnalysePackage lib dir parsed = Inl (NoPackageFound dir)"
  using assms by (simp add: AnalysePackage_def selectPackage_None)

text \<open>Claim C8 on a directory with the package \<open>stack_test\<close> only, and on an empty one.\<close>

theorem AnalysePackage_no_package_witness:
  "HasSuffix ''stack_test'' ''_test'' \<and>
   AnalysePackage exampleLibrary ''./stack''
     \<lparr>pd_pkgs = [(''stack_test'', stackTestPackage)], pd_err = None\<rparr> =
     Inl (NoPackageFound ''./stack'') \<and>
   AnalysePackage exampleLibrary ''./empty'' \<lparr>pd_pkgs = [], pd_err = None\<rparr> =
     Inl (NoPackageFound ''./empty'')"
proof -
  have s: "HasSuffix ''stack_test'' ''_test''"
    by (simp add: HasSuffix_def)
  from AnalysePackage_no_package
         [of "\<lparr>pd_pkgs = [(''stack_test'', stackTestPackage)], pd_err = None\<rparr>"
             exampleLibrary "''./stack''"]
       AnalysePackage_no_package
         [of "\<lparr>pd_pkgs = [], pd_err = None\<rparr>" exampleLibrary "''./empty''"]
       s
  show ?thesis by simp
qed

subsection \<open>C9: no package-level examples after analysis\<close>

text \<open>
  Claim C9: every model that \<open>AnalysePackage\<close> returns has an empty package-level list
  of examples.
\<close>

theorem AnalysePackage_no_package_examples:
  assumes "AnalysePackage lib dir parsed = Inr info"
  shows "Examples info = []"
  using assms by (elim AnalysePackage_Inr) (simp add: modelOf_def)

text \<open>Claim C9 on the package \<open>stack\<close>.\<close>

theorem AnalysePackage_no_package_examples_witness:
  "AnalysePackage exampleLibrary ''./stack'' stackParsed = Inr stackInfo \<and>
   Examples stackInfo = []"
  by (rule conjI [OF AnalysePackage_stack
                     AnalysePackage_no_package_examples [OF AnalysePackage_stack]])

subsection \<open>C10: return values carry no description\<close>

text \<open>
  Claim C10: in a model that \<open>AnalysePackage\<close> returns, every \<open>ReturnInfo\<close> of every
  function and method has an empty description.
\<close>

theorem AnalysePackage_return_descriptions_empty:
  assumes "AnalysePackage lib dir parsed = Inr info"
    and "f \<in> set (Functions info)" and "r \<in> set (fn_Returns f)"
  shows "re_Description r = []"
proof -
  from assms(1) obtain pkg where info: "info = modelOf lib dir pkg"
    by (rule AnalysePackage_Inr)
  from assms(2) obtain fn where "fn_Returns f = fn_Returns (analyseFunctionDecl lib fn)"
    by (auto simp: info modelOf_def methodInfoOf_def)
  with assms(3) show ?thesis
    by (simp add: analyseFunctionDecl_Returns)
qed

text \<open>Claim C10 on the package \<open>stack\<close>: the return value of \<open>Max\<close>.\<close>

theorem AnalysePackage_return_descriptions_empty_witness:
  "AnalysePackage exampleLibrary ''./stack'' stackParsed = Inr stackInfo \<and>
   Functions stackInfo ! 0 \<in> set (Functions stackInfo) \<and>
   hd (fn_Returns (Functions stackInfo ! 0)) \<in> set (fn_Returns (Functions stackInfo ! 0)) \<and>
   re_Description (hd (fn_Returns (Functions stackInfo ! 0))) = []"
proof -
  have f: "Functions stackInfo ! 0 \<in> set (Functions stackInfo)"
    and r: "hd (fn_Returns (Functions stackInfo ! 0)) \<in> set (fn_Returns (Functions stackInfo ! 0))"
    by (simp_all add: stackInfo_def)
  from AnalysePackage_return_descriptions_empty [OF AnalysePackage_stack f r]
       AnalysePackage_stack f r
  show ?thesis by blast
qed

end
